theory Spec2Isabelle
  imports Complex_Main
begin

section \<open>Quick parameter guesses for the CANS plate model (cans/guesser.py)\<close>

text \<open>
  The development embeds the class \<open>Guesser\<close> of \<open>cans/guesser.py\<close>. The code is
  Python 2 on numpy arrays of 64-bit floats. Numbers are modelled as \<^typ>\<open>real\<close>:
  rounding is not modelled, so every equation below is an equation of exact arithmetic.
  Where numpy would leave the reals (a division by zero gives \<open>inf\<close> or \<open>nan\<close> with a
  warning, the variance of no data is \<open>nan\<close>) the model stops with the error
  \<open>FloatingPointError\<close>, which is what numpy raises under \<open>seterr(all='raise')\<close>.
  A leading underscore of a Python name is dropped (\<open>_guess_init_N\<close> is
  \<open>guess_init_N\<close>).
\<close>

subsection \<open>Errors and Python's list operations\<close>

datatype error =
    ValueError
  | TypeError
  | IndexError
  | AttributeError
  | UnboundLocalError
  | FloatingPointError
  | LinAlgError

text \<open>Sequencing of fallible steps: the first error wins, as a raised exception does.\<close>

fun seq :: "error + 'a \<Rightarrow> ('a \<Rightarrow> error + 'b) \<Rightarrow> error + 'b" where
  "seq (Inl e) f = Inl e"
| "seq (Inr v) f = f v"

text \<open>\<open>xs[-n:]\<close>: the last \<open>n\<close> entries, and the whole list when \<open>n\<close> is zero or too large.\<close>

definition py_last :: "nat \<Rightarrow> 'a list \<Rightarrow> 'a list" where
  "py_last n xs = (if n = 0 then xs else drop (length xs - n) xs)"

text \<open>\<open>xs.index(v)\<close> raises ValueError when \<open>v\<close> is absent.\<close>

fun index_of :: "'a list \<Rightarrow> 'a \<Rightarrow> error + nat" where
  "index_of [] v = Inl ValueError"
| "index_of (y # ys) v = (if y = v then Inr 0 else seq (index_of ys v) (\<lambda>i. Inr (Suc i)))"

text \<open>\<open>xs[i]\<close> for a non-negative \<open>i\<close>.\<close>

definition py_nth :: "'a list \<Rightarrow> nat \<Rightarrow> error + 'a" where
  "py_nth xs i = (if i < length xs then Inr (xs ! i) else Inl IndexError)"

text \<open>\<open>a / b\<close> on numpy floats.\<close>

definition py_div :: "real \<Rightarrow> real \<Rightarrow> error + real" where
  "py_div a b = (if b = 0 then Inl FloatingPointError else Inr (a / b))"

text \<open>\<open>max(xs)\<close> and \<open>min(xs)\<close> raise ValueError on an empty sequence.\<close>

definition py_max :: "real list \<Rightarrow> error + real" where
  "py_max xs = (case xs of [] \<Rightarrow> Inl ValueError | y # ys \<Rightarrow> Inr (fold max ys y))"

definition py_min :: "real list \<Rightarrow> error + real" where
  "py_min xs = (case xs of [] \<Rightarrow> Inl ValueError | y # ys \<Rightarrow> Inr (fold min ys y))"

subsection \<open>Plate, model and guesser\<close>

text \<open>
  The classes \<open>Plate\<close>, \<open>Culture\<close> and the models live in modules that are not part of
  the two source files; the records hold the attributes that \<open>guesser.py\<close> reads and
  writes, with no invariant assumed between them.
\<close>

datatype fit_result = OptimizeResult (res_x: "real list") (res_success: bool)

record culture =
  c_series :: "real list"
  log_est :: "fit_result option"
  im_neigh_est :: "fit_result option"

record plate =
  rows :: nat
  cols :: nat
  no_cultures :: nat
  time_points :: "real list"
  c_meas :: "real list"
  c_meas_obj :: "real list"
  growers :: "nat list"
  empties :: "nat list"
  internals :: "nat list"
  edges :: "nat list"
  cultures :: "culture list"

text \<open>
  \<open>species_bc\<close> holds one marker per species, the empty string when the species has no
  boundary condition; Python tests the marker's truth value.
\<close>

record model =
  species :: "string list"
  species_bc :: "string list"
  params :: "string list"

record guesser =
  plate :: plate
  model :: model
  area_ratio :: "real option"
  C_ratio :: "real option"

subsection \<open>Initial amounts\<close>

text \<open>
  The total amount of nutrients: the sum of the final measurements of the growing
  cultures, which are the last entries of \<open>c_meas_obj\<close>.
\<close>

definition N_tot :: "guesser \<Rightarrow> real" where
  "N_tot g = sum_list (py_last (length (growers (plate g))) (c_meas_obj (plate g)))"

definition guess_init_N :: "guesser \<Rightarrow> error + real list" where
  "guess_init_N g =
     seq (index_of (species (model g)) ''N'') (\<lambda>N_index.
     seq (py_nth (species_bc (model g)) N_index) (\<lambda>bc.
       if bc \<noteq> [] then
         (let ni = length (internals (plate g)); ne = length (edges (plate g)) in
          case area_ratio g of
            None \<Rightarrow> Inl TypeError
          | Some ratio \<Rightarrow>
              seq (py_div (N_tot g) (real ni + real ne * ratio)) (\<lambda>Ni.
              seq (py_div (N_tot g - real ni * Ni) (real ne)) (\<lambda>Ne.
              Inr [Ni, Ne])))
       else
         seq (py_div (N_tot g) (real (no_cultures (plate g)))) (\<lambda>N_all.
         Inr [N_all])))"

definition guess_init_C :: "guesser \<Rightarrow> error + real list" where
  "guess_init_C g =
     seq (py_max (py_last (no_cultures (plate g)) (c_meas (plate g)))) (\<lambda>C_f_max.
       case C_ratio g of
         None \<Rightarrow> Inl TypeError
       | Some ratio \<Rightarrow> Inr [C_f_max * ratio])"

text \<open>The boundary-condition flag of the nutrient species, as the guesser reads it.\<close>

definition N_has_bc :: "guesser \<Rightarrow> error + bool" where
  "N_has_bc g =
     seq (index_of (species (model g)) ''N'') (\<lambda>N_index.
     seq (py_nth (species_bc (model g)) N_index) (\<lambda>bc. Inr (bc \<noteq> [])))"

definition make_first_guess :: "guesser \<Rightarrow> real \<Rightarrow> error + real list" where
  "make_first_guess g b_guess =
     seq (guess_init_C g) (\<lambda>C_0_guess.
     seq (guess_init_N g) (\<lambda>N_0_guess.
     Inr (C_0_guess @ N_0_guess @ [b_guess])))"

subsection \<open>Bounds\<close>

text \<open>A bound is a Python pair \<open>(lower, upper)\<close>; \<open>None\<close> on a side leaves it open.\<close>

type_synonym bound = "real option \<times> real option"

definition in_bound :: "bound \<Rightarrow> real \<Rightarrow> bool" where
  "in_bound b v \<longleftrightarrow>
     (case fst b of None \<Rightarrow> True | Some lo \<Rightarrow> lo \<le> v) \<and>
     (case snd b of None \<Rightarrow> True | Some hi \<Rightarrow> v \<le> hi)"

definition bound_init_amounts :: "guesser \<Rightarrow> real list \<Rightarrow> real \<Rightarrow> real \<Rightarrow> error + bound list" where
  "bound_init_amounts g guess C_doubt N_doubt =
     seq (py_nth guess 0) (\<lambda>C_0.
     seq (py_div C_0 C_doubt) (\<lambda>C_lo.
     let bounds = [(Some C_lo, Some (C_0 * C_doubt))] in
     seq (index_of (species (model g)) ''N'') (\<lambda>N_index.
     seq (py_nth (species_bc (model g)) N_index) (\<lambda>bc.
       if bc = [] then
         seq (py_nth guess 1) (\<lambda>N_0.
         Inr (bounds @ [(Some (N_0 * (9 / 10)), Some (N_0 * N_doubt))]))
       else
         seq (py_nth guess 1) (\<lambda>Ni.
         seq (py_div Ni N_doubt) (\<lambda>Ni_lo.
         seq (py_nth guess 2) (\<lambda>Ne.
         seq (py_div Ne N_doubt) (\<lambda>Ne_lo.
         Inr (bounds @ [(Some Ni_lo, Some (Ni * N_doubt)),
                        (Some Ne_lo, Some (Ne * N_doubt))])))))))))"

definition get_bounds :: "guesser \<Rightarrow> real list \<Rightarrow> real \<Rightarrow> real \<Rightarrow> real \<Rightarrow> error + bound list" where
  "get_bounds g guess C_doubt N_doubt kn_max =
     seq (bound_init_amounts g guess C_doubt N_doubt) (\<lambda>amount_bounds.
     let kn_bound = [(Some 0, Some kn_max)];
         b_bounds = replicate (no_cultures (plate g)) (Some 0, None)
     in Inr (amount_bounds @ kn_bound @ b_bounds))"

text \<open>\<open>np.delete(xs, i)\<close> for a single non-negative index.\<close>

definition np_delete :: "'a list \<Rightarrow> nat \<Rightarrow> error + 'a list" where
  "np_delete xs i = (if i < length xs then Inr (take i xs @ drop (Suc i) xs) else Inl IndexError)"

definition sep_by_N_0 ::
  "guesser \<Rightarrow> real list \<Rightarrow> bound list \<Rightarrow> error + (real list list \<times> bound list list)" where
  "sep_by_N_0 g param_guess bounds =
     seq (index_of (species (model g)) ''N'') (\<lambda>N_index.
     seq (py_nth (species_bc (model g)) N_index) (\<lambda>bc.
       if bc \<noteq> [] then
         seq (np_delete param_guess 2) (\<lambda>p_int.
         seq (np_delete param_guess 1) (\<lambda>p_edge.
         seq (np_delete bounds 2) (\<lambda>b_int.
         seq (np_delete bounds 1) (\<lambda>b_edge.
         Inr ([p_int, p_edge], [b_int, b_edge])))))
       else Inr ([param_guess], [bounds])))"

subsection \<open>Processing the estimates of a quick fit\<close>

text \<open>
  A parameter vector is a float array that may hold the placeholder \<open>nan\<close> at the
  index of \<open>kn\<close>.
\<close>

datatype pyfloat = Fl real | NaN

text \<open>
  \<open>sorted(zip(C_fs, all_ests))\<close> orders tuples: by the final amount, and on equal final
  amounts by the estimates, which are numpy arrays. Comparing two such arrays of more
  than one entry as part of a tuple raises ValueError (the truth value of an array is
  ambiguous); arrays of no entry compare false. \<open>sorted\<close> is stable; it is modelled
  as insertion of each entry, from the left, behind the entries that are not greater.
\<close>

definition ests_lt :: "real \<times> real list \<Rightarrow> real \<times> real list \<Rightarrow> error + bool" where
  "ests_lt p q =
     (if fst p \<noteq> fst q then Inr (fst p < fst q)
      else if 1 < length (snd p) \<or> 1 < length (snd q) then Inl ValueError
      else (case (snd p, snd q) of ([a], [b]) \<Rightarrow> Inr (a < b) | _ \<Rightarrow> Inr False))"

fun py_insert ::
  "real \<times> real list \<Rightarrow> (real \<times> real list) list \<Rightarrow> error + (real \<times> real list) list" where
  "py_insert p [] = Inr [p]"
| "py_insert p (q # qs) =
     seq (ests_lt p q) (\<lambda>lt.
       if lt then Inr (p # q # qs) else seq (py_insert p qs) (\<lambda>r. Inr (q # r)))"

fun py_sorted_from ::
  "(real \<times> real list) list \<Rightarrow> (real \<times> real list) list \<Rightarrow> error + (real \<times> real list) list" where
  "py_sorted_from acc [] = Inr acc"
| "py_sorted_from acc (p # ps) = seq (py_insert p acc) (\<lambda>acc'. py_sorted_from acc' ps)"

definition py_sorted :: "(real \<times> real list) list \<Rightarrow> error + (real \<times> real list) list" where
  "py_sorted ps = py_sorted_from [] ps"

definition get_top_half_C_f_ests :: "guesser \<Rightarrow> real list list \<Rightarrow> error + real list list" where
  "get_top_half_C_f_ests g all_ests =
     (let C_fs = py_last (no_cultures (plate g)) (c_meas (plate g)) in
      seq (py_sorted (zip C_fs all_ests)) (\<lambda>srt.
      let C_f_sorted = map snd srt in
      Inr (drop (no_cultures (plate g) div 2) C_f_sorted)))"

text \<open>
  \<open>a[:, j]\<close> on \<open>np.array(rows)\<close>: IndexError when the array is not two-dimensional
  (no row, or rows of different lengths) or has no column \<open>j\<close>.
\<close>

definition np_column :: "real list list \<Rightarrow> nat \<Rightarrow> error + real list" where
  "np_column rs j =
     (case rs of
        [] \<Rightarrow> Inl IndexError
      | r # rest \<Rightarrow>
          if list_all (\<lambda>r'. length r' = length r) rest \<and> j < length r
          then Inr (map (\<lambda>r'. r' ! j) rs) else Inl IndexError)"

text \<open>\<open>np.median\<close>; of no data it is \<open>nan\<close>.\<close>

definition np_median :: "real list \<Rightarrow> error + real" where
  "np_median xs =
     (let s = sort xs; n = length xs in
      if n = 0 then Inl FloatingPointError
      else if odd n then Inr (s ! (n div 2))
      else Inr ((s ! (n div 2 - 1) + s ! (n div 2)) / 2))"

text \<open>
  \<open>holder[idx] = vals\<close> with a list of indices: the values are stored pairwise, a single
  value is broadcast, any other length mismatch raises ValueError.
\<close>

definition np_put :: "real list \<Rightarrow> nat list \<Rightarrow> real list \<Rightarrow> error + real list" where
  "np_put holder idx vals =
     (if \<not> list_all (\<lambda>i. i < length holder) idx then Inl IndexError
      else if length vals = length idx
        then Inr (fold (\<lambda>(i, v) h. h[i := v]) (zip idx vals) holder)
      else if length vals = 1
        then Inr (fold (\<lambda>i h. h[i := hd vals]) idx holder)
      else Inl ValueError)"

text \<open>\<open>np.insert(xs, i, v)\<close> for a single non-negative index.\<close>

definition np_insert :: "'a list \<Rightarrow> nat \<Rightarrow> 'a \<Rightarrow> error + 'a list" where
  "np_insert xs i v = (if i \<le> length xs then Inr (take i xs @ v # drop i xs) else Inl IndexError)"

text \<open>\<open>getattr(c, est_name).x\<close>\<close>

definition get_est :: "string \<Rightarrow> culture \<Rightarrow> error + real list" where
  "get_est est_name c =
     (if est_name = ''log_est'' then
        (case log_est c of None \<Rightarrow> Inl AttributeError | Some r \<Rightarrow> Inr (res_x r))
      else if est_name = ''im_neigh_est'' then
        (case im_neigh_est c of None \<Rightarrow> Inl AttributeError | Some r \<Rightarrow> Inr (res_x r))
      else Inl AttributeError)"

text \<open>The estimates of the cultures whose index is in \<open>growers\<close>, in culture order.\<close>

fun collect_ests :: "string \<Rightarrow> nat list \<Rightarrow> nat \<Rightarrow> culture list \<Rightarrow> error + real list list" where
  "collect_ests est_name gs i [] = Inr []"
| "collect_ests est_name gs i (c # cs) =
     (if i \<in> set gs then
        seq (get_est est_name c) (\<lambda>e.
        seq (collect_ests est_name gs (Suc i) cs) (\<lambda>es. Inr (e # es)))
      else collect_ests est_name gs (Suc i) cs)"

text \<open>
  The quick models \<open>IndeModel()\<close> and \<open>ImagNeighModel(no_neighs)\<close> belong to a module
  outside the source files, as do \<open>Culture.fit_model\<close> and the simulation of a plate.
  They are parameters of the development: the index of the growth rate in a quick
  model's parameters, the fit of one culture, the size of a new \<open>Plate(rows, cols)\<close> and
  the measurements that \<open>set_sim_data\<close> stores in it.
\<close>

datatype quick_model = IndeModel | ImagNeighModel int

record collab =
  b_index :: "quick_model \<Rightarrow> nat"
  fit_model :: "culture \<Rightarrow> quick_model \<Rightarrow> real list \<Rightarrow> bound list \<Rightarrow> fit_result"
  new_plate_no_cultures :: "nat \<Rightarrow> nat \<Rightarrow> nat"
  set_sim_data :: "nat \<Rightarrow> nat \<Rightarrow> real list \<Rightarrow> model \<Rightarrow> pyfloat list \<Rightarrow> real list"

text \<open>
  \<open>b_ests\<close> is a view of a column of \<open>all_ests\<close>, and the clipping is done in place
  (\<open>out=b_ests\<close>): it clips that column of \<open>all_ests\<close> as well.
\<close>

definition process_quick_ests ::
  "collab \<Rightarrow> guesser \<Rightarrow> quick_model \<Rightarrow> string \<Rightarrow> real \<Rightarrow> bool \<Rightarrow> string \<Rightarrow> real list option
     \<Rightarrow> error + pyfloat list" where
  "process_quick_ests col g quick_mod est_name b_guess clip C_0_handling plate_lvl =
     seq (collect_ests est_name (growers (plate g)) 0 (cultures (plate g))) (\<lambda>ests.
     seq (np_column ests (b_index col quick_mod)) (\<lambda>b_col.
     let b_clipped = (if clip then map (\<lambda>b. min b (3 * b_guess)) b_col else b_col);
         all_ests = (if clip then map (\<lambda>r. r[b_index col quick_mod :=
                                          min (r ! b_index col quick_mod) (3 * b_guess)]) ests
                     else ests);
         b_est_holder = replicate (no_cultures (plate g)) 0 in
     seq (np_put b_est_holder (growers (plate g)) b_clipped) (\<lambda>b_ests.
       case plate_lvl of
         Some pl \<Rightarrow> Inr (map Fl (pl @ b_ests))
       | None \<Rightarrow>
           seq (if C_0_handling = ''first_guess'' then
                  seq (guess_init_C g) (\<lambda>C_0. Inr (Some C_0))
                else if C_0_handling = ''median'' then
                  seq (np_column all_ests 0) (\<lambda>C_col.
                  seq (np_median C_col) (\<lambda>med. Inr (Some [med])))
                else if C_0_handling = ''top_half'' then
                  seq (get_top_half_C_f_ests g all_ests) (\<lambda>included_ests.
                  seq (np_column included_ests 0) (\<lambda>C_col.
                  seq (np_median C_col) (\<lambda>med. Inr (Some [med]))))
                else Inr None) (\<lambda>C_0_guess.
           seq (guess_init_N g) (\<lambda>N_0_guess.
             case C_0_guess of
               None \<Rightarrow> Inl UnboundLocalError
             | Some C_0 \<Rightarrow>
                 seq (index_of (params (model g)) ''kn'') (\<lambda>kn_index.
                 np_insert (map Fl (C_0 @ N_0_guess @ b_ests)) kn_index NaN))))))"

subsection \<open>The two quick-fit stages\<close>

text \<open>
  Both stages store a fit result in the cultures of the plate and return the processed
  guess; the model returns the guess together with the cultures as the stage leaves
  them.
\<close>

definition fit_log_eq_cultures ::
  "collab \<Rightarrow> bound list \<Rightarrow> real list list \<Rightarrow> culture list \<Rightarrow> culture list" where
  "fit_log_eq_cultures col log_eq_bounds log_eq_guesses cs =
     map (\<lambda>(guess, culture).
            culture\<lparr>log_est := Some (fit_model col culture IndeModel guess log_eq_bounds)\<rparr>)
         (zip log_eq_guesses cs)
     @ drop (length log_eq_guesses) cs"

definition quick_fit_log_eq ::
  "collab \<Rightarrow> guesser \<Rightarrow> real \<Rightarrow> error + (pyfloat list \<times> culture list)" where
  "quick_fit_log_eq col g b_guess =
     seq (make_first_guess g b_guess) (\<lambda>first_guess.
     seq (py_nth first_guess 0) (\<lambda>C_0.
     let C_0_guess = [C_0];
         C_fs = py_last (no_cultures (plate g)) (c_meas (plate g));
         log_eq_guesses = map (\<lambda>N_0. C_0_guess @ [N_0, b_guess]) C_fs;
         log_eq_bounds = [(Some C_0, Some C_0), (Some 0, None), (Some 0, None)];
         cs = fit_log_eq_cultures col log_eq_bounds log_eq_guesses (cultures (plate g));
         g' = g\<lparr>plate := (plate g)\<lparr>cultures := cs\<rparr>\<rparr> in
     seq (process_quick_ests col g' IndeModel ''log_est'' b_guess False ''first_guess'' None)
       (\<lambda>new_guess. Inr (new_guess, cs))))"

text \<open>
  The loop of the imaginary-neighbour stage. \<open>N_0_index\<close> is a local variable that an
  iteration may leave as the previous one set it, and that is unbound at first.
\<close>

fun fit_imag_neigh_cultures ::
  "collab \<Rightarrow> plate \<Rightarrow> bool \<Rightarrow> quick_model \<Rightarrow> real list list \<Rightarrow> bound list list
     \<Rightarrow> nat \<Rightarrow> nat option \<Rightarrow> culture list \<Rightarrow> error + culture list" where
  "fit_imag_neigh_cultures col p N_bc imag_neigh_mod ps bs i N_0_index [] = Inr []"
| "fit_imag_neigh_cultures col p N_bc imag_neigh_mod ps bs i N_0_index (c # cs) =
     (let N_0_index' =
            (if \<not> N_bc then Some 0
             else if i \<in> set (internals p) then Some 0
             else if i \<in> set (edges p) then Some 1
             else N_0_index)
      in if i \<in> set (empties p) then
           seq (fit_imag_neigh_cultures col p N_bc imag_neigh_mod ps bs (Suc i) N_0_index' cs)
             (\<lambda>rest. Inr (c # rest))
         else
           (case N_0_index' of
              None \<Rightarrow> Inl UnboundLocalError
            | Some k \<Rightarrow>
                seq (py_nth ps k) (\<lambda>param_guess.
                seq (py_nth bs k) (\<lambda>bounds.
                seq (fit_imag_neigh_cultures col p N_bc imag_neigh_mod ps bs (Suc i) N_0_index' cs)
                  (\<lambda>rest. Inr (c\<lparr>im_neigh_est :=
                                     Some (fit_model col c imag_neigh_mod param_guess bounds)\<rparr>
                                 # rest))))))"

text \<open>The number of imaginary neighbours of each kind, when the caller gives none.\<close>

definition N_0_min :: "guesser \<Rightarrow> nat \<Rightarrow> real list option \<Rightarrow> error + real" where
  "N_0_min g N_index plate_lvl =
     (case plate_lvl of
        None \<Rightarrow> seq (guess_init_N g) py_min
      | Some pl \<Rightarrow> py_nth pl N_index)"

definition C_f_max :: "guesser \<Rightarrow> error + real" where
  "C_f_max g = py_max (py_last (no_cultures (plate g)) (c_meas (plate g)))"

definition calc_no_neighs :: "guesser \<Rightarrow> nat \<Rightarrow> real list option \<Rightarrow> error + int" where
  "calc_no_neighs g N_index plate_lvl =
     seq (N_0_min g N_index plate_lvl) (\<lambda>N_0.
     seq (C_f_max g) (\<lambda>C_f.
     seq (py_div C_f N_0) (\<lambda>q. Inr \<lceil>q\<rceil>)))"

definition quick_fit_imag_neighs ::
  "collab \<Rightarrow> guesser \<Rightarrow> real list \<Rightarrow> int option \<Rightarrow> real list option
     \<Rightarrow> error + (pyfloat list \<times> culture list)" where
  "quick_fit_imag_neighs col g imag_neigh_params no_neighs plate_lvl =
     seq (index_of (species (model g)) ''N'') (\<lambda>N_index.
     seq (py_nth (species_bc (model g)) N_index) (\<lambda>bc.
     let N_bc = (bc \<noteq> []) in
     seq (if imag_neigh_params = [] then Inl IndexError else Inr (last imag_neigh_params))
       (\<lambda>b_guess.
     seq (case plate_lvl of
            None \<Rightarrow> make_first_guess g b_guess
          | Some pl \<Rightarrow>
              if pl \<noteq> [] \<and> N_bc then Inr (take (N_index + 2) pl @ [b_guess])
              else if pl \<noteq> [] \<and> \<not> N_bc then Inr (take (N_index + 1) pl @ [b_guess])
              else Inl ValueError) (\<lambda>first_guess.
     seq (case no_neighs of
            None \<Rightarrow> calc_no_neighs g N_index plate_lvl
          | Some n \<Rightarrow> Inr n) (\<lambda>no_neighs'.
     let imag_neigh_mod = ImagNeighModel no_neighs';
         amount_bounds = map (\<lambda>amount. (Some amount, Some amount)) (butlast first_guess) in
     seq (py_nth imag_neigh_params 2) (\<lambda>b_minus.
     seq (py_nth imag_neigh_params 3) (\<lambda>b_plus.
     let other_bounds = [(Some 0, None), (Some 0, None),
                         (Some b_minus, Some b_minus), (Some b_plus, Some b_plus),
                         (Some 0, None)] in
     seq (if amount_bounds = [] then Inl ValueError else Inr (amount_bounds @ other_bounds))
       (\<lambda>neigh_bounds.
     seq (sep_by_N_0 g (butlast first_guess @ imag_neigh_params) neigh_bounds) (\<lambda>(ps, bs).
     seq (fit_imag_neigh_cultures col (plate g) N_bc imag_neigh_mod ps bs 0 None
            (cultures (plate g))) (\<lambda>cs.
     let g' = g\<lparr>plate := (plate g)\<lparr>cultures := cs\<rparr>\<rparr> in
     seq (process_quick_ests col g' imag_neigh_mod ''im_neigh_est'' b_guess True
            ''first_guess'' plate_lvl)
       (\<lambda>new_guess. Inr (new_guess, cs))))))))))))"

subsection \<open>The diffusion rate from the variance of the final measurements\<close>

definition np_mean :: "real list \<Rightarrow> error + real" where
  "np_mean xs = py_div (sum_list xs) (real (length xs))"

text \<open>\<open>np.var\<close>: the mean squared deviation from the mean.\<close>

definition np_var :: "real list \<Rightarrow> error + real" where
  "np_var xs = seq (np_mean xs) (\<lambda>mu. np_mean (map (\<lambda>v. (v - mu)\<^sup>2) xs))"

text \<open>\<open>np.linspace(start, stop, num)\<close>: \<open>num\<close> evenly spaced values, both ends included.\<close>

definition np_linspace :: "real \<Rightarrow> real \<Rightarrow> int \<Rightarrow> error + real list" where
  "np_linspace start stop num =
     (if num < 0 then Inl ValueError
      else if num = 1 then Inr [start]
      else Inr (map (\<lambda>i. start + real i * ((stop - start) / real_of_int (num - 1)))
                    [0..<nat num]))"

text \<open>
  \<open>np.linalg.lstsq(A, ys)[0]\<close> for the matrix \<open>A\<close> with the rows \<open>(x, 1)\<close>: the
  least-squares solution \<open>(m, c)\<close> of \<open>m * x + c = y\<close>, and the one of least norm when
  the matrix has rank one (all \<open>x\<close> equal). A system of no equation is rejected.
\<close>

definition lstsq_line :: "real list \<Rightarrow> real list \<Rightarrow> error + (real \<times> real)" where
  "lstsq_line xs ys =
     (let n = real (length xs);
          sx = sum_list xs;
          sy = sum_list ys;
          sxx = sum_list (map (\<lambda>x. x * x) xs);
          sxy = sum_list (map (\<lambda>(x, y). x * y) (zip xs ys));
          det = n * sxx - sx * sx
      in if xs = [] \<or> length ys \<noteq> length xs then Inl LinAlgError
         else if det \<noteq> 0 then Inr ((n * sxy - sx * sy) / det, (sxx * sy - sx * sxy) / det)
         else (let x0 = hd xs; ybar = sy / n
               in Inr (x0 * ybar / (x0 * x0 + 1), ybar / (x0 * x0 + 1))))"

text \<open>\<open>xs[i] = v\<close>\<close>

definition py_set :: "'a list \<Rightarrow> nat \<Rightarrow> 'a \<Rightarrow> error + 'a list" where
  "py_set xs i v = (if i < length xs then Inr (xs[i := v]) else Inl IndexError)"

text \<open>\<open>a.clip(min=lo)\<close> leaves \<open>nan\<close> as it is.\<close>

fun clip_min :: "real \<Rightarrow> pyfloat \<Rightarrow> pyfloat" where
  "clip_min lo (Fl v) = Fl (max lo v)"
| "clip_min lo NaN = NaN"

text \<open>The variance of the simulated final measurements for one value of \<open>kn\<close>.\<close>

definition sim_C_f_var :: "collab \<Rightarrow> guesser \<Rightarrow> nat \<Rightarrow> pyfloat list \<Rightarrow> real \<Rightarrow> error + real" where
  "sim_C_f_var col g kn_index ps kn =
     seq (py_set ps kn_index (Fl kn)) (\<lambda>ps'.
     let sim_c_meas = set_sim_data col (rows (plate g)) (cols (plate g))
                        (time_points (plate g)) (model g) ps';
         C_fs = py_last (new_plate_no_cultures col (rows (plate g)) (cols (plate g))) sim_c_meas
     in np_var C_fs)"

fun sim_C_f_vars :: "collab \<Rightarrow> guesser \<Rightarrow> nat \<Rightarrow> pyfloat list \<Rightarrow> real list \<Rightarrow> error + real list" where
  "sim_C_f_vars col g kn_index ps [] = Inr []"
| "sim_C_f_vars col g kn_index ps (kn # kns) =
     seq (sim_C_f_var col g kn_index ps kn) (\<lambda>v.
     seq (sim_C_f_vars col g kn_index ps kns) (\<lambda>vs. Inr (v # vs)))"

text \<open>
  \<open>guess_kn\<close> also writes the values of \<open>kn\<close> into the array that it is given; the
  model returns what the function returns, a clipped copy.
\<close>

definition guess_kn ::
  "collab \<Rightarrow> guesser \<Rightarrow> real \<Rightarrow> real \<Rightarrow> int \<Rightarrow> pyfloat list \<Rightarrow> error + pyfloat list" where
  "guess_kn col g start stop num ps =
     seq (np_var (py_last (no_cultures (plate g)) (c_meas (plate g)))) (\<lambda>C_f_var_true.
     seq (np_linspace start stop num) (\<lambda>kns.
     seq (index_of (params (model g)) ''kn'') (\<lambda>kn_index.
     seq (sim_C_f_vars col g kn_index ps kns) (\<lambda>C_f_vars.
     seq (lstsq_line kns C_f_vars) (\<lambda>(m, c).
     seq (py_div (C_f_var_true - c) m) (\<lambda>kn_guess.
     seq (py_set ps kn_index (Fl kn_guess)) (\<lambda>ps'.
     Inr (map (clip_min 0) ps'))))))))"

text \<open>
  The growth-rate part of a parameter vector, in the words of the specification: the
  vector ends with one growth rate per culture.
\<close>

definition growth_rates :: "guesser \<Rightarrow> pyfloat list \<Rightarrow> pyfloat list" where
  "growth_rates g v = drop (length v - no_cultures (plate g)) v"

text \<open>
  Ordinary least squares, in the words of the specification: the sum of the squared
  residuals of the line \<open>y = m * x + c\<close> at the points \<open>(x, y)\<close>.
\<close>

definition sq_residuals :: "real list \<Rightarrow> real list \<Rightarrow> real \<Rightarrow> real \<Rightarrow> real" where
  "sq_residuals xs ys m c = sum_list (map (\<lambda>(x, y). (m * x + c - y)\<^sup>2) (zip xs ys))"

subsection \<open>Example inputs\<close>

text \<open>
  A model with one nutrient amount and a model with separate nutrient amounts of
  internal and edge cultures.
\<close>

definition model_1N :: model where
  "model_1N = \<lparr>species = [''C'', ''N''], species_bc = ['''', ''''],
               params = [''C_0'', ''N_0'', ''kn'', ''b'']\<rparr>"

definition model_BC :: model where
  "model_BC = \<lparr>species = [''C'', ''N''], species_bc = ['''', ''NE_0''],
               params = [''C_0'', ''N_0'', ''NE_0'', ''kn'', ''b'']\<rparr>"

definition blank_culture :: culture where
  "blank_culture = \<lparr>c_series = [], log_est = None, im_neigh_est = None\<rparr>"

text \<open>A plate of no culture, as \<open>Plate(0, 0)\<close> describes it.\<close>

definition no_culture_plate :: plate where
  "no_culture_plate = \<lparr>rows = 0, cols = 0, no_cultures = 0, time_points = [], c_meas = [],
      c_meas_obj = [], growers = [], empties = [], internals = [], edges = [], cultures = []\<rparr>"

text \<open>
  A plate of two rows and two columns measured at two times, whose last culture is
  empty.
\<close>

definition plate_2x2 :: plate where
  "plate_2x2 = \<lparr>rows = 2, cols = 2, no_cultures = 4, time_points = [0, 1],
      c_meas = [1, 1, 1, 0, 6, 8, 10, 0],
      c_meas_obj = [1, 1, 1, 6, 8, 10],
      growers = [0, 1, 2], empties = [3], internals = [], edges = [0, 1, 2, 3],
      cultures = [blank_culture, blank_culture, blank_culture, blank_culture]\<rparr>"

text \<open>A full plate of three rows and three columns measured once: one internal culture.\<close>

definition plate_3x3 :: plate where
  "plate_3x3 = \<lparr>rows = 3, cols = 3, no_cultures = 9, time_points = [1],
      c_meas = [2, 2, 2, 2, 4, 2, 2, 2, 2],
      c_meas_obj = [2, 2, 2, 2, 4, 2, 2, 2, 2],
      growers = [0, 1, 2, 3, 4, 5, 6, 7, 8], empties = [], internals = [4],
      edges = [0, 1, 2, 3, 5, 6, 7, 8],
      cultures = replicate 9 blank_culture\<rparr>"

text \<open>
  Collaborators for the examples: a fit that overshoots (it returns its initial guess
  with the growth rate, the last parameter, multiplied by four), quick models whose
  growth rate is their last parameter, and a simulation whose final measurements have
  the variance \<open>4 * kn + 1\<close> at \<open>kn = 0, 1, 2\<close>.
\<close>

definition sim_finals :: "pyfloat \<Rightarrow> real list" where
  "sim_finals kn =
     (case kn of
        NaN \<Rightarrow> []
      | Fl k \<Rightarrow> if k = 0 then [- 1, 1, - 1, 1]
                else if k = 1 then [- 1, 1, - 3, 3]
                else [- 3, 3, - 3, 3])"

definition overshoot_collab :: collab where
  "overshoot_collab =
     \<lparr>b_index = (\<lambda>m. case m of IndeModel \<Rightarrow> 2 | ImagNeighModel n \<Rightarrow> 6),
      fit_model = (\<lambda>c m guess bounds. OptimizeResult (butlast guess @ [4 * last guess]) True),
      new_plate_no_cultures = (\<lambda>r c. r * c),
      set_sim_data = (\<lambda>r c ts mdl ps. sim_finals (ps ! 2))\<rparr>"

text \<open>
  A collaborator whose fit of the imaginary-neighbour model returns the number of
  neighbours of that model as its estimate of the growth rate.
\<close>

definition counting_collab :: collab where
  "counting_collab =
     \<lparr>b_index = (\<lambda>m. case m of IndeModel \<Rightarrow> 2 | ImagNeighModel n \<Rightarrow> 6),
      fit_model = (\<lambda>c m guess bounds.
         case m of
           IndeModel \<Rightarrow> OptimizeResult guess True
         | ImagNeighModel n \<Rightarrow> OptimizeResult (butlast guess @ [real_of_int n]) True),
      new_plate_no_cultures = (\<lambda>r c. r * c),
      set_sim_data = (\<lambda>r c ts mdl ps. sim_finals (ps ! 2))\<rparr>"

definition guesser_2x2 :: guesser where
  "guesser_2x2 = \<lparr>plate = plate_2x2, model = model_1N, area_ratio = Some 1,
       C_ratio = Some (1 / 10)\<rparr>"

text \<open>
  A row of three cultures measured once, the first one empty, after a quick fit: the
  culture with the final amount 9 has the estimate 0.1 of the initial cell amount, the
  culture with the final amount 5 the estimate 0.3.
\<close>

definition plate_gap :: plate where
  "plate_gap = \<lparr>rows = 1, cols = 3, no_cultures = 3, time_points = [1],
      c_meas = [0, 9, 5],
      c_meas_obj = [9, 5],
      growers = [1, 2], empties = [0], internals = [], edges = [0, 1, 2],
      cultures = [blank_culture,
                  blank_culture\<lparr>log_est := Some (OptimizeResult [1 / 10, 9, 1] True)\<rparr>,
                  blank_culture\<lparr>log_est := Some (OptimizeResult [3 / 10, 5, 1] True)\<rparr>]\<rparr>"

definition guesser_gap :: guesser where
  "guesser_gap = \<lparr>plate = plate_gap, model = model_1N, area_ratio = Some 1,
       C_ratio = Some (1 / 10)\<rparr>"

section \<open>Properties\<close>

lemma seq_Inr_iff: "seq r f = Inr y \<longleftrightarrow> (\<exists>v. r = Inr v \<and> f v = Inr y)"
  by (cases r) auto

subsection \<open>Conservation of the nutrient guess\<close>

lemma guess_init_N_no_bc:
  assumes "N_has_bc g = Inr False" and "0 < no_cultures (plate g)"
  shows "\<exists>N_all. guess_init_N g = Inr [N_all] \<and> N_all * real (no_cultures (plate g)) = N_tot g"
  using assms
  by (auto simp: N_has_bc_def guess_init_N_def seq_Inr_iff py_div_def)

lemma guess_init_N_bc:
  assumes bc: "N_has_bc g = Inr True" and ar: "area_ratio g = Some r"
    and ne: "0 < length (edges (plate g))"
    and den: "real (length (internals (plate g))) + real (length (edges (plate g))) * r \<noteq> 0"
  shows "\<exists>Ni Ne. guess_init_N g = Inr [Ni, Ne]
     \<and> real (length (internals (plate g))) * Ni + real (length (edges (plate g))) * Ne = N_tot g
     \<and> Ne = Ni * r"
proof -
  define ni where "ni = real (length (internals (plate g)))"
  define ne where "ne = real (length (edges (plate g)))"
  define Ni where "Ni = N_tot g / (ni + ne * r)"
  define Ne where "Ne = (N_tot g - ni * Ni) / ne"
  have ne0: "ne \<noteq> 0" using ne by (simp add: ne_def)
  have den0: "ni + ne * r \<noteq> 0" using den by (simp add: ni_def ne_def)
  from bc obtain N_index m where
    "index_of (species (model g)) ''N'' = Inr N_index"
    "py_nth (species_bc (model g)) N_index = Inr m" "m \<noteq> []"
    by (auto simp: N_has_bc_def seq_Inr_iff)
  then have res: "guess_init_N g = Inr [Ni, Ne]"
    using ar ne0 den0
    by (simp add: guess_init_N_def py_div_def Let_def Ni_def Ne_def ni_def ne_def)
  have tot: "Ni * (ni + ne * r) = N_tot g"
    using den0 by (simp add: Ni_def)
  have sum: "ni * Ni + ne * Ne = N_tot g"
    using ne0 by (simp add: Ne_def)
  have "ni * Ni + ne * Ne = ni * Ni + ne * (Ni * r)"
    using sum tot by (simp add: algebra_simps)
  then have "ne * Ne = ne * (Ni * r)" by linarith
  then have "Ne = Ni * r" using ne0 by simp
  with res sum show ?thesis unfolding ni_def ne_def by blast
qed

text \<open>
  Claim C1, as the code has it. \<open>N_tot\<close> is the sum of the final measurements of the
  growing cultures. When the nutrient species has no boundary condition and the plate
  has at least one culture, \<open>_guess_init_N\<close> returns one value \<open>N_all\<close> with
  \<open>N_all * no_cultures = N_tot\<close>. When it has a boundary condition, the area ratio is
  given, there is an edge culture and \<open>ni + ne * area_ratio\<close> is not zero, it returns
  \<open>[Ni, Ne]\<close> with \<open>ni * Ni + ne * Ne = N_tot\<close> and \<open>Ne = Ni * area_ratio\<close>.
\<close>

theorem guess_init_N_conservation:
  "(N_has_bc g = Inr False \<and> 0 < no_cultures (plate g) \<longrightarrow>
      (\<exists>N_all. guess_init_N g = Inr [N_all]
         \<and> N_all * real (no_cultures (plate g)) = N_tot g))
   \<and> (N_has_bc g = Inr True \<and> area_ratio g = Some r \<and> 0 < length (edges (plate g))
        \<and> real (length (internals (plate g))) + real (length (edges (plate g))) * r \<noteq> 0 \<longrightarrow>
      (\<exists>Ni Ne. guess_init_N g = Inr [Ni, Ne]
         \<and> real (length (internals (plate g))) * Ni
             + real (length (edges (plate g))) * Ne = N_tot g
         \<and> Ne = Ni * r))"
  using guess_init_N_no_bc [of g] guess_init_N_bc [of g r] by blast

text \<open>
  The first law at the plate of two rows and two columns (\<open>N_tot = 24\<close>, four cultures),
  the second at the full plate of three rows and three columns with the area ratio one
  half (\<open>N_tot = 20\<close>, one internal and eight edge cultures).
\<close>

theorem guess_init_N_conservation_witness:
  "N_has_bc \<lparr>plate = plate_2x2, model = model_1N, area_ratio = None, C_ratio = None\<rparr>
     = Inr False
   \<and> guess_init_N \<lparr>plate = plate_2x2, model = model_1N, area_ratio = None, C_ratio = None\<rparr>
     = Inr [6]
   \<and> N_has_bc \<lparr>plate = plate_3x3, model = model_BC, area_ratio = Some (1 / 2), C_ratio = None\<rparr>
     = Inr True
   \<and> guess_init_N \<lparr>plate = plate_3x3, model = model_BC, area_ratio = Some (1 / 2), C_ratio = None\<rparr>
     = Inr [4, 2]"
  using guess_init_N_conservation
    [of "\<lparr>plate = plate_2x2, model = model_1N, area_ratio = None, C_ratio = None\<rparr>"]
    guess_init_N_conservation
    [of "\<lparr>plate = plate_3x3, model = model_BC, area_ratio = Some (1 / 2), C_ratio = None\<rparr>"
        "1 / 2"]
  by (simp add: N_has_bc_def guess_init_N_def N_tot_def model_1N_def model_BC_def
      plate_2x2_def plate_3x3_def py_nth_def py_div_def py_last_def)

text \<open>
  On a plate of no culture the division by the number of cultures has no value: no list
  \<open>[N_all]\<close> with \<open>N_all * no_cultures = N_tot\<close> is returned, although the nutrient
  species has no boundary condition.
\<close>

theorem guess_init_N_no_culture_counterexample:
  "N_has_bc \<lparr>plate = no_culture_plate, model = model_1N, area_ratio = Some 1, C_ratio = Some 1\<rparr>
     = Inr False
   \<and> guess_init_N \<lparr>plate = no_culture_plate, model = model_1N, area_ratio = Some 1, C_ratio = Some 1\<rparr>
     = Inl FloatingPointError"
  by (simp add: N_has_bc_def guess_init_N_def model_1N_def no_culture_plate_def
      py_nth_def py_div_def)

subsection \<open>Bounds around a guess\<close>

lemma list_all2_replicate_open:
  assumes "\<forall>v \<in> set vs. 0 \<le> v" and "length vs = n"
  shows "list_all2 in_bound (replicate n (Some 0, None)) vs"
  using assms
  by (auto simp: list_all2_conv_all_nth in_bound_def)

lemma get_bounds_no_bc:
  assumes bc: "N_has_bc g = Inr False" and C: "C_doubt \<noteq> 0"
  shows "get_bounds g (C_0 # N_0 # rest) C_doubt N_doubt kn_max =
     Inr ([(Some (C_0 / C_doubt), Some (C_0 * C_doubt)),
           (Some (N_0 * (9 / 10)), Some (N_0 * N_doubt)),
           (Some 0, Some kn_max)] @ replicate (no_cultures (plate g)) (Some 0, None))"
proof -
  from bc obtain N_index where
    "index_of (species (model g)) ''N'' = Inr N_index"
    "py_nth (species_bc (model g)) N_index = Inr []"
    by (auto simp: N_has_bc_def seq_Inr_iff)
  then show ?thesis using C
    by (simp add: get_bounds_def bound_init_amounts_def py_nth_def py_div_def)
qed

lemma get_bounds_bc:
  assumes bc: "N_has_bc g = Inr True" and C: "C_doubt \<noteq> 0" and N: "N_doubt \<noteq> 0"
  shows "get_bounds g (C_0 # Ni # Ne # rest) C_doubt N_doubt kn_max =
     Inr ([(Some (C_0 / C_doubt), Some (C_0 * C_doubt)),
           (Some (Ni / N_doubt), Some (Ni * N_doubt)),
           (Some (Ne / N_doubt), Some (Ne * N_doubt)),
           (Some 0, Some kn_max)] @ replicate (no_cultures (plate g)) (Some 0, None))"
proof -
  from bc obtain N_index m where
    "index_of (species (model g)) ''N'' = Inr N_index"
    "py_nth (species_bc (model g)) N_index = Inr m" "m \<noteq> []"
    by (auto simp: N_has_bc_def seq_Inr_iff)
  then show ?thesis using C N
    by (simp add: get_bounds_def bound_init_amounts_def py_nth_def py_div_def)
qed

lemma in_bound_doubt:
  assumes "0 \<le> v" and "1 \<le> d"
  shows "in_bound (Some (v / d), Some (v * d)) v"
proof -
  have "v / d \<le> v / 1" using assms by (intro divide_left_mono) auto
  moreover have "v * 1 \<le> v * d" using assms by (intro mult_left_mono) auto
  ultimately show ?thesis by (simp add: in_bound_def)
qed

lemma in_bound_single_N:
  assumes "0 \<le> v" and "1 \<le> d"
  shows "in_bound (Some (v * (9 / 10)), Some (v * d)) v"
proof -
  have "v * 1 \<le> v * d" using assms by (intro mult_left_mono) auto
  then show ?thesis using assms by (simp add: in_bound_def)
qed

lemma list_split3:
  assumes "length xs = 3 + n"
  shows "\<exists>a b c r. xs = a # b # c # r \<and> length r = n"
proof -
  from assms obtain a xs1 where 1: "xs = a # xs1" "length xs1 = 2 + n"
    by (cases xs) auto
  then obtain b xs2 where 2: "xs1 = b # xs2" "length xs2 = 1 + n"
    by (cases xs1) auto
  then obtain c r where 3: "xs2 = c # r" "length r = n"
    by (cases xs2) auto
  from 1 2 3 show ?thesis by blast
qed

lemma list_split4:
  assumes "length xs = 4 + n"
  shows "\<exists>a b c d r. xs = a # b # c # d # r \<and> length r = n"
proof -
  from assms obtain a xs1 where 1: "xs = a # xs1" "length xs1 = 3 + n"
    by (cases xs) auto
  from list_split3 [OF 1(2)] 1(1) show ?thesis by blast
qed

text \<open>
  Claim C4. For uncertainty factors \<open>C_doubt\<close> and \<open>N_doubt\<close> of at least one and a guess
  vector \<open>[C_0, N_0(, Ne), kn, b_1 ... b_k]\<close> of non-negative entries with \<open>kn\<close> at most
  \<open>kn_max\<close>, \<open>get_bounds\<close> returns one bound per parameter, every guess lies within its
  bound, and the bounds are \<open>(C_0 / C_doubt, C_0 * C_doubt)\<close> for the cell amount,
  \<open>(0.9 * N_0, N_doubt * N_0)\<close> for a single nutrient amount or the pairs
  \<open>(N / N_doubt, N * N_doubt)\<close> for two, \<open>(0, kn_max)\<close> for the diffusion rate and
  \<open>(0, None)\<close> for the growth rate of each culture.
\<close>

theorem get_bounds_contain_guess:
  assumes bc: "N_has_bc g = Inr bc"
    and len: "length guess = (if bc then 3 else 2) + 1 + no_cultures (plate g)"
    and C: "1 \<le> C_doubt" and N: "1 \<le> N_doubt"
    and nonneg: "\<forall>v \<in> set guess. 0 \<le> v"
    and kn: "guess ! (if bc then 3 else 2) \<le> kn_max"
  shows "\<exists>bs. get_bounds g guess C_doubt N_doubt kn_max = Inr bs
     \<and> length bs = length guess
     \<and> (\<forall>i < length guess. in_bound (bs ! i) (guess ! i))
     \<and> bs = [(Some (guess ! 0 / C_doubt), Some (guess ! 0 * C_doubt))]
          @ (if bc then [(Some (guess ! 1 / N_doubt), Some (guess ! 1 * N_doubt)),
                         (Some (guess ! 2 / N_doubt), Some (guess ! 2 * N_doubt))]
             else [(Some (guess ! 1 * (9 / 10)), Some (guess ! 1 * N_doubt))])
          @ [(Some 0, Some kn_max)]
          @ replicate (no_cultures (plate g)) (Some 0, None)"
proof (cases bc)
  case False
  with len have "length guess = 3 + no_cultures (plate g)" by simp
  from list_split3 [OF this] obtain C_0 N_0 k rest where g: "guess = C_0 # N_0 # k # rest"
    and rest: "length rest = no_cultures (plate g)"
    by blast
  define bs where "bs = [(Some (C_0 / C_doubt), Some (C_0 * C_doubt)),
           (Some (N_0 * (9 / 10)), Some (N_0 * N_doubt)),
           (Some 0, Some kn_max)] @ replicate (no_cultures (plate g)) (Some 0, None)"
  have res: "get_bounds g guess C_doubt N_doubt kn_max = Inr bs"
    using get_bounds_no_bc [of g C_doubt C_0 N_0 "k # rest" N_doubt kn_max] bc False C
    by (simp add: g bs_def)
  have "in_bound (Some 0, Some kn_max) k"
    using kn nonneg False by (simp add: g in_bound_def)
  then have all: "list_all2 in_bound bs guess"
    using nonneg C N rest in_bound_single_N [of N_0 N_doubt]
    by (simp add: g bs_def in_bound_doubt list_all2_replicate_open)
  then have "length bs = length guess" "\<forall>i < length guess. in_bound (bs ! i) (guess ! i)"
    by (simp_all add: list_all2_conv_all_nth)
  with res show ?thesis using False by (simp add: g bs_def)
next
  case True
  with len have "length guess = 4 + no_cultures (plate g)" by simp
  from list_split4 [OF this] obtain C_0 Ni Ne k rest where g: "guess = C_0 # Ni # Ne # k # rest"
    and rest: "length rest = no_cultures (plate g)"
    by blast
  define bs where "bs = [(Some (C_0 / C_doubt), Some (C_0 * C_doubt)),
           (Some (Ni / N_doubt), Some (Ni * N_doubt)),
           (Some (Ne / N_doubt), Some (Ne * N_doubt)),
           (Some 0, Some kn_max)] @ replicate (no_cultures (plate g)) (Some 0, None)"
  have res: "get_bounds g guess C_doubt N_doubt kn_max = Inr bs"
    using get_bounds_bc [of g C_doubt N_doubt C_0 Ni Ne "k # rest" kn_max] bc True C N
    by (simp add: g bs_def)
  have "in_bound (Some 0, Some kn_max) k"
    using kn nonneg True by (simp add: g in_bound_def)
  then have all: "list_all2 in_bound bs guess"
    using nonneg C N rest
    by (simp add: g bs_def in_bound_doubt list_all2_replicate_open)
  then have "length bs = length guess" "\<forall>i < length guess. in_bound (bs ! i) (guess ! i)"
    by (simp_all add: list_all2_conv_all_nth)
  with res show ?thesis using True by (simp add: g bs_def)
qed

text \<open>
  The bounds of the guess \<open>[1, 6, 0.5, 1, 1, 1, 0]\<close> on the plate of two rows and two
  columns, with \<open>C_doubt = 1000\<close>, \<open>N_doubt = 2\<close> and \<open>kn_max = 10\<close>.
\<close>

theorem get_bounds_contain_guess_witness:
  "N_has_bc \<lparr>plate = plate_2x2, model = model_1N, area_ratio = None, C_ratio = None\<rparr>
     = Inr False
   \<and> get_bounds \<lparr>plate = plate_2x2, model = model_1N, area_ratio = None, C_ratio = None\<rparr>
        [1, 6, 1 / 2, 1, 1, 1, 0] 1000 2 10
     = Inr [(Some (1 / 1000), Some 1000), (Some (27 / 5), Some 12), (Some 0, Some 10),
            (Some 0, None), (Some 0, None), (Some 0, None), (Some 0, None)]
   \<and> (\<exists>bs. get_bounds \<lparr>plate = plate_2x2, model = model_1N, area_ratio = None, C_ratio = None\<rparr>
        [1, 6, 1 / 2, 1, 1, 1, 0] 1000 2 10 = Inr bs
      \<and> (\<forall>i < 7. in_bound (bs ! i) ([1, 6, 1 / 2, 1, 1, 1, 0] ! i)))"
proof -
  have bc: "N_has_bc \<lparr>plate = plate_2x2, model = model_1N, area_ratio = None, C_ratio = None\<rparr>
     = Inr False"
    by (simp add: N_has_bc_def model_1N_def py_nth_def)
  have val: "get_bounds \<lparr>plate = plate_2x2, model = model_1N, area_ratio = None, C_ratio = None\<rparr>
        [1, 6, 1 / 2, 1, 1, 1, 0] 1000 2 10
     = Inr [(Some (1 / 1000), Some 1000), (Some (27 / 5), Some 12), (Some 0, Some 10),
            (Some 0, None), (Some 0, None), (Some 0, None), (Some 0, None)]"
    by (simp add: get_bounds_def bound_init_amounts_def model_1N_def plate_2x2_def
        py_nth_def py_div_def eval_nat_numeral)
  have "\<exists>bs. get_bounds \<lparr>plate = plate_2x2, model = model_1N, area_ratio = None, C_ratio = None\<rparr>
        [1, 6, 1 / 2, 1, 1, 1, 0] 1000 2 10 = Inr bs
      \<and> (\<forall>i < 7. in_bound (bs ! i) ([1, 6, 1 / 2, 1, 1, 1, 0] ! i))"
    using get_bounds_contain_guess
      [of "\<lparr>plate = plate_2x2, model = model_1N, area_ratio = None, C_ratio = None\<rparr>"
          False "[1, 6, 1 / 2, 1, 1, 1, 0]" 1000 2 10] bc
    by (simp add: plate_2x2_def eval_nat_numeral)
  with bc val show ?thesis by blast
qed

subsection \<open>The number of imaginary neighbours\<close>

lemma guess_init_N_2x2: "guess_init_N guesser_2x2 = Inr [6]"
  by (simp add: guesser_2x2_def guess_init_N_def N_tot_def model_1N_def
      plate_2x2_def py_nth_def py_div_def py_last_def)

lemma ceiling_budget:
  fixes C_f N_0 :: real
  assumes "0 < N_0"
  shows "C_f < (1 + of_int \<lceil>C_f / N_0\<rceil>) * N_0"
proof -
  have "C_f / N_0 \<le> of_int \<lceil>C_f / N_0\<rceil>" by (rule le_of_int_ceiling)
  then have "C_f / N_0 * N_0 \<le> of_int \<lceil>C_f / N_0\<rceil> * N_0"
    using assms by (intro mult_right_mono) auto
  then have "C_f \<le> of_int \<lceil>C_f / N_0\<rceil> * N_0"
    using assms by simp
  then show ?thesis using assms by (simp add: algebra_simps)
qed

text \<open>
  Every culture that the loop of the imaginary-neighbour stage does not skip is fitted
  with the quick model that the loop is given, and the stage gives it the model of the
  number of neighbours that it has computed.
\<close>

lemma fit_imag_neigh_cultures_model:
  assumes "fit_imag_neigh_cultures col p N_bc m ps bs i k cs = Inr cs'"
  shows "length cs' = length cs
     \<and> (\<forall>j < length cs. i + j \<notin> set (empties p) \<longrightarrow>
           (\<exists>param_guess bounds.
              cs' ! j = (cs ! j)\<lparr>im_neigh_est := Some (fit_model col (cs ! j) m param_guess bounds)\<rparr>))"
  using assms
proof (induction cs arbitrary: i k cs')
  case Nil
  then show ?case by simp
next
  case (Cons c cs)
  define k' where "k' = (if \<not> N_bc then Some 0
             else if i \<in> set (internals p) then Some 0
             else if i \<in> set (edges p) then Some 1
             else k)"
  from Cons.prems obtain c' rest where cs': "cs' = c' # rest"
    and rest: "fit_imag_neigh_cultures col p N_bc m ps bs (Suc i) k' cs = Inr rest"
    and c': "i \<notin> set (empties p) \<longrightarrow>
         (\<exists>param_guess bounds.
            c' = c\<lparr>im_neigh_est := Some (fit_model col c m param_guess bounds)\<rparr>)"
    by (auto simp: Let_def seq_Inr_iff k'_def split: if_splits option.splits)
  from Cons.IH [OF rest] have IH: "length rest = length cs"
    "\<forall>j < length cs. Suc i + j \<notin> set (empties p) \<longrightarrow>
           (\<exists>param_guess bounds.
              rest ! j = (cs ! j)\<lparr>im_neigh_est := Some (fit_model col (cs ! j) m param_guess bounds)\<rparr>)"
    by simp_all
  show ?case
  proof (intro conjI allI impI)
    show "length cs' = length (c # cs)" using IH(1) by (simp add: cs')
  next
    fix j assume "j < length (c # cs)" "i + j \<notin> set (empties p)"
    then show "\<exists>param_guess bounds.
              cs' ! j = ((c # cs) ! j)\<lparr>im_neigh_est :=
                 Some (fit_model col ((c # cs) ! j) m param_guess bounds)\<rparr>"
      using c' IH(2) by (cases j) (simp_all add: cs')
  qed
qed

lemma quick_fit_imag_neighs_computed:
  assumes res: "quick_fit_imag_neighs col g imag_neigh_params None plate_lvl = Inr (v, cs)"
    and idx: "index_of (species (model g)) ''N'' = Inr N_index"
  shows "\<exists>n N_bc ps bs.
       calc_no_neighs g N_index plate_lvl = Inr n
     \<and> fit_imag_neigh_cultures col (plate g) N_bc (ImagNeighModel n) ps bs 0 None
           (cultures (plate g)) = Inr cs
     \<and> process_quick_ests col (g\<lparr>plate := (plate g)\<lparr>cultures := cs\<rparr>\<rparr>) (ImagNeighModel n)
           ''im_neigh_est'' (last imag_neigh_params) True ''first_guess'' plate_lvl = Inr v"
  using res idx
  by (auto simp: quick_fit_imag_neighs_def Let_def seq_Inr_iff split: if_splits)

text \<open>
  Claim C9. \<open>N_0_min\<close> is the nutrient amount that the stage takes for one culture (the
  least inferred amount, or the entry of the supplied plate-level parameters at the
  index of \<open>N\<close>) and \<open>C_f_max\<close> the largest final measurement. When \<open>N_0_min\<close> is
  positive and no number of neighbours is supplied, the stage computes a number
  \<open>n\<close> with \<open>C_f_max < (1 + n) * N_0_min\<close> and runs as if \<open>n\<close> had been supplied:
  whenever it returns, every culture that is not empty has been fitted with
  \<open>ImagNeighModel(n)\<close>, and the estimates have been processed with that model.
\<close>

theorem no_neighs_budget:
  assumes idx: "index_of (species (model g)) ''N'' = Inr N_index"
    and N0: "N_0_min g N_index plate_lvl = Inr N_0"
    and Cf: "C_f_max g = Inr C_f"
    and pos: "0 < N_0"
  shows "\<exists>n. calc_no_neighs g N_index plate_lvl = Inr n
     \<and> C_f < (1 + of_int n) * N_0
     \<and> quick_fit_imag_neighs col g imag_neigh_params None plate_lvl
       = quick_fit_imag_neighs col g imag_neigh_params (Some n) plate_lvl
     \<and> (\<forall>v cs. quick_fit_imag_neighs col g imag_neigh_params None plate_lvl = Inr (v, cs) \<longrightarrow>
           length cs = length (cultures (plate g))
         \<and> (\<forall>i < length cs. i \<notin> set (empties (plate g)) \<longrightarrow>
               (\<exists>param_guess bounds.
                  cs ! i = (cultures (plate g) ! i)\<lparr>im_neigh_est :=
                     Some (fit_model col (cultures (plate g) ! i) (ImagNeighModel n)
                             param_guess bounds)\<rparr>))
         \<and> process_quick_ests col (g\<lparr>plate := (plate g)\<lparr>cultures := cs\<rparr>\<rparr>)
               (ImagNeighModel n) ''im_neigh_est'' (last imag_neigh_params) True
               ''first_guess'' plate_lvl = Inr v)"
proof -
  define n where "n = \<lceil>C_f / N_0\<rceil>"
  have calc: "calc_no_neighs g N_index plate_lvl = Inr n"
    using N0 Cf pos by (simp add: calc_no_neighs_def py_div_def n_def)
  have budget: "C_f < (1 + of_int n) * N_0"
    unfolding n_def by (rule ceiling_budget [OF pos])
  have same: "quick_fit_imag_neighs col g imag_neigh_params None plate_lvl
       = quick_fit_imag_neighs col g imag_neigh_params (Some n) plate_lvl"
    unfolding quick_fit_imag_neighs_def using idx calc by simp
  have used: "length cs = length (cultures (plate g))
         \<and> (\<forall>i < length cs. i \<notin> set (empties (plate g)) \<longrightarrow>
               (\<exists>param_guess bounds.
                  cs ! i = (cultures (plate g) ! i)\<lparr>im_neigh_est :=
                     Some (fit_model col (cultures (plate g) ! i) (ImagNeighModel n)
                             param_guess bounds)\<rparr>))
         \<and> process_quick_ests col (g\<lparr>plate := (plate g)\<lparr>cultures := cs\<rparr>\<rparr>)
               (ImagNeighModel n) ''im_neigh_est'' (last imag_neigh_params) True
               ''first_guess'' plate_lvl = Inr v"
    if res: "quick_fit_imag_neighs col g imag_neigh_params None plate_lvl = Inr (v, cs)"
    for v cs
  proof -
    from quick_fit_imag_neighs_computed [OF res idx] calc obtain N_bc ps bs where
      fits: "fit_imag_neigh_cultures col (plate g) N_bc (ImagNeighModel n) ps bs 0 None
           (cultures (plate g)) = Inr cs"
      and proc: "process_quick_ests col (g\<lparr>plate := (plate g)\<lparr>cultures := cs\<rparr>\<rparr>)
           (ImagNeighModel n) ''im_neigh_est'' (last imag_neigh_params) True
           ''first_guess'' plate_lvl = Inr v"
      by auto
    from fit_imag_neigh_cultures_model [OF fits] proc show ?thesis by simp
  qed
  from calc budget same used show ?thesis by blast
qed

lemma imag_neighs_counted_2x2:
  "quick_fit_imag_neighs counting_collab guesser_2x2 [1 / 2, 1 / 2, 1 / 10, 3 / 2, 1] None None
     = Inr ([Fl 1, Fl 6, NaN, Fl 2, Fl 2, Fl 2, Fl 0],
            [blank_culture\<lparr>im_neigh_est :=
               Some (OptimizeResult [1, 6, 1 / 2, 1 / 2, 1 / 10, 3 / 2, 2] True)\<rparr>,
             blank_culture\<lparr>im_neigh_est :=
               Some (OptimizeResult [1, 6, 1 / 2, 1 / 2, 1 / 10, 3 / 2, 2] True)\<rparr>,
             blank_culture\<lparr>im_neigh_est :=
               Some (OptimizeResult [1, 6, 1 / 2, 1 / 2, 1 / 10, 3 / 2, 2] True)\<rparr>,
             blank_culture])"
  by code_simp

text \<open>
  On the plate of two rows and two columns the inferred nutrient amount is 6 and the
  largest final measurement 10: two neighbours of each kind, and \<open>10 < 3 * 6\<close>. The fit
  that returns the number of neighbours returns 2 for every growing culture.
\<close>

theorem no_neighs_budget_witness:
  "index_of (species (model guesser_2x2)) ''N'' = Inr 1
   \<and> N_0_min guesser_2x2 1 None = Inr 6
   \<and> C_f_max guesser_2x2 = Inr 10
   \<and> calc_no_neighs guesser_2x2 1 None = Inr 2
   \<and> (10 :: real) < (1 + of_int 2) * 6
   \<and> map_sum id fst (quick_fit_imag_neighs counting_collab guesser_2x2
        [1 / 2, 1 / 2, 1 / 10, 3 / 2, 1] None None)
     = Inr [Fl 1, Fl 6, NaN, Fl 2, Fl 2, Fl 2, Fl 0]
   \<and> (\<exists>cs param_guess bounds.
        map_sum id snd (quick_fit_imag_neighs counting_collab guesser_2x2
          [1 / 2, 1 / 2, 1 / 10, 3 / 2, 1] None None) = Inr cs
      \<and> cs ! 0 = (cultures (plate guesser_2x2) ! 0)\<lparr>im_neigh_est :=
           Some (fit_model counting_collab (cultures (plate guesser_2x2) ! 0)
                   (ImagNeighModel 2) param_guess bounds)\<rparr>
      \<and> im_neigh_est (cs ! 0)
         = Some (OptimizeResult [1, 6, 1 / 2, 1 / 2, 1 / 10, 3 / 2, 2] True))"
proof -
  let ?ps = "[1 / 2, 1 / 2, 1 / 10, 3 / 2, 1 :: real]"
  let ?v = "[Fl 1, Fl 6, NaN, Fl 2, Fl 2, Fl 2, Fl 0]"
  let ?c = "blank_culture\<lparr>im_neigh_est :=
               Some (OptimizeResult [1, 6, 1 / 2, 1 / 2, 1 / 10, 3 / 2, 2] True)\<rparr>"
  let ?cs = "[?c, ?c, ?c, blank_culture]"
  have idx: "index_of (species (model guesser_2x2)) ''N'' = Inr 1"
    by (simp add: guesser_2x2_def model_1N_def)
  have N0: "N_0_min guesser_2x2 1 None = Inr 6"
    by (simp add: N_0_min_def guess_init_N_2x2 py_min_def)
  have Cf: "C_f_max guesser_2x2 = Inr 10"
    by (simp add: C_f_max_def guesser_2x2_def plate_2x2_def py_max_def py_last_def)
  have calc: "calc_no_neighs guesser_2x2 1 None = Inr 2"
    using N0 Cf by (simp add: calc_no_neighs_def py_div_def)
  have res: "quick_fit_imag_neighs counting_collab guesser_2x2 ?ps None None = Inr (?v, ?cs)"
    by (rule imag_neighs_counted_2x2)
  have emp: "0 \<notin> set (empties (plate guesser_2x2))"
    by (simp add: guesser_2x2_def plate_2x2_def)
  from no_neighs_budget [OF idx N0 Cf, of counting_collab ?ps] calc
  have "\<forall>v cs. quick_fit_imag_neighs counting_collab guesser_2x2 ?ps None None = Inr (v, cs) \<longrightarrow>
         (\<forall>i < length cs. i \<notin> set (empties (plate guesser_2x2)) \<longrightarrow>
               (\<exists>param_guess bounds.
                  cs ! i = (cultures (plate guesser_2x2) ! i)\<lparr>im_neigh_est :=
                     Some (fit_model counting_collab (cultures (plate guesser_2x2) ! i)
                             (ImagNeighModel 2) param_guess bounds)\<rparr>))"
    by auto
  from this [rule_format, OF res, of 0] emp
  obtain param_guess bounds where
    used: "?cs ! 0 = (cultures (plate guesser_2x2) ! 0)\<lparr>im_neigh_est :=
           Some (fit_model counting_collab (cultures (plate guesser_2x2) ! 0)
                   (ImagNeighModel 2) param_guess bounds)\<rparr>"
    by auto
  have est: "im_neigh_est (?cs ! 0)
         = Some (OptimizeResult [1, 6, 1 / 2, 1 / 2, 1 / 10, 3 / 2, 2] True)"
    by simp
  have ex: "\<exists>cs param_guess bounds.
        map_sum id snd (quick_fit_imag_neighs counting_collab guesser_2x2 ?ps None None) = Inr cs
      \<and> cs ! 0 = (cultures (plate guesser_2x2) ! 0)\<lparr>im_neigh_est :=
           Some (fit_model counting_collab (cultures (plate guesser_2x2) ! 0)
                   (ImagNeighModel 2) param_guess bounds)\<rparr>
      \<and> im_neigh_est (cs ! 0)
         = Some (OptimizeResult [1, 6, 1 / 2, 1 / 2, 1 / 10, 3 / 2, 2] True)"
    using used est by (intro exI [of _ ?cs] exI [of _ param_guess] exI [of _ bounds])
      (simp add: res)
  have v: "map_sum id fst (quick_fit_imag_neighs counting_collab guesser_2x2 ?ps None None)
      = Inr ?v"
    by (simp add: res)
  have b: "(10 :: real) < (1 + of_int 2) * 6" by simp
  from idx N0 Cf calc b v ex show ?thesis by (intro conjI)
qed

subsection \<open>Supplied plate-level parameters\<close>

text \<open>
  Claim C8. Called with plate-level parameters that are present but empty,
  \<open>quick_fit_imag_neighs\<close> raises an error, the same whatever the fit of a culture would
  do, and returns no guess; the error is the ValueError of the stage itself when the
  model has a nutrient species and the imaginary-neighbour parameters are not empty.
\<close>

theorem empty_plate_lvl_rejected:
  "\<exists>e. (\<forall>col. quick_fit_imag_neighs col g imag_neigh_params no_neighs (Some []) = Inl e)
      \<and> ((\<exists>bc. N_has_bc g = Inr bc) \<and> imag_neigh_params \<noteq> [] \<longrightarrow> e = ValueError)"
proof (cases "index_of (species (model g)) ''N''")
  case (Inl e)
  then show ?thesis
    by (auto simp: quick_fit_imag_neighs_def N_has_bc_def)
next
  case idx: (Inr N_index)
  show ?thesis
  proof (cases "py_nth (species_bc (model g)) N_index")
    case (Inl e)
    with idx show ?thesis
      by (auto simp: quick_fit_imag_neighs_def N_has_bc_def)
  next
    case (Inr bc)
    with idx show ?thesis
      by (cases "imag_neigh_params = []")
         (auto simp: quick_fit_imag_neighs_def N_has_bc_def)
  qed
qed

text \<open>The stage on the plate of two rows and two columns, with the empty list supplied.\<close>

theorem empty_plate_lvl_rejected_witness:
  "N_has_bc guesser_2x2 = Inr False
   \<and> quick_fit_imag_neighs overshoot_collab guesser_2x2 [1 / 2, 1 / 2, 1 / 10, 3 / 2, 1]
        None (Some []) = Inl ValueError"
proof -
  have bc: "N_has_bc guesser_2x2 = Inr False"
    by (simp add: N_has_bc_def guesser_2x2_def model_1N_def py_nth_def)
  from empty_plate_lvl_rejected [of guesser_2x2 "[1 / 2, 1 / 2, 1 / 10, 3 / 2, 1]" None] bc
  show ?thesis by auto
qed

lemma seq_Inl_iff: "seq r f = Inl e \<longleftrightarrow> r = Inl e \<or> (\<exists>v. r = Inr v \<and> f v = Inl e)"
  by (cases r) auto

lemma index_of_no_TypeError: "index_of xs v \<noteq> Inl TypeError"
  by (induction xs) (auto simp: seq_Inl_iff)

lemma py_nth_no_TypeError: "py_nth xs i \<noteq> Inl TypeError"
  by (simp add: py_nth_def)

lemma np_delete_no_TypeError: "np_delete xs i \<noteq> Inl TypeError"
  by (simp add: np_delete_def)

lemma sep_by_N_0_no_TypeError: "sep_by_N_0 g ps bs \<noteq> Inl TypeError"
  by (simp add: sep_by_N_0_def seq_Inl_iff index_of_no_TypeError py_nth_no_TypeError
      np_delete_no_TypeError)

lemma fit_imag_neigh_cultures_no_TypeError:
  "fit_imag_neigh_cultures col p N_bc m ps bs i k cs \<noteq> Inl TypeError"
  by (induction cs arbitrary: i k)
     (auto simp: Let_def py_nth_no_TypeError seq_Inl_iff split: option.splits)

lemma get_est_no_TypeError: "get_est nm c \<noteq> Inl TypeError"
  by (simp add: get_est_def split: option.splits)

lemma collect_ests_no_TypeError: "collect_ests nm gs i cs \<noteq> Inl TypeError"
  by (induction cs arbitrary: i)
     (auto simp: get_est_no_TypeError seq_Inl_iff)

lemma np_column_no_TypeError: "np_column rs j \<noteq> Inl TypeError"
  by (simp add: np_column_def split: list.splits)

lemma np_put_no_TypeError: "np_put h idx vs \<noteq> Inl TypeError"
  by (simp add: np_put_def)

lemma process_quick_ests_supplied_no_TypeError:
  "process_quick_ests col g m nm b clip h (Some pl) \<noteq> Inl TypeError"
  by (simp add: process_quick_ests_def Let_def seq_Inl_iff collect_ests_no_TypeError
      np_column_no_TypeError np_put_no_TypeError)

lemma py_max_no_TypeError: "py_max xs \<noteq> Inl TypeError"
  by (simp add: py_max_def split: list.splits)

lemma calc_no_neighs_supplied_no_TypeError:
  "calc_no_neighs g N_index (Some pl) \<noteq> Inl TypeError"
  by (simp add: calc_no_neighs_def N_0_min_def C_f_max_def seq_Inl_iff
      py_nth_no_TypeError py_max_no_TypeError py_div_def)

lemma process_quick_ests_supplied_ratios:
  "process_quick_ests col (g\<lparr>area_ratio := ar, C_ratio := cr, plate := p\<rparr>) m nm b clip h (Some pl)
   = process_quick_ests col (g\<lparr>plate := p\<rparr>) m nm b clip h (Some pl)"
  by (simp add: process_quick_ests_def)

lemma calc_no_neighs_supplied_ratios:
  "calc_no_neighs (g\<lparr>area_ratio := ar, C_ratio := cr\<rparr>) N_index (Some pl)
   = calc_no_neighs g N_index (Some pl)"
  by (simp add: calc_no_neighs_def N_0_min_def C_f_max_def)

lemma sep_by_N_0_ratios:
  "sep_by_N_0 (g\<lparr>area_ratio := ar, C_ratio := cr\<rparr>) ps bs = sep_by_N_0 g ps bs"
  by (simp add: sep_by_N_0_def)

text \<open>
  Claim C10. With plate-level parameters supplied, the result of
  \<open>quick_fit_imag_neighs\<close> (the guess and the fitted cultures) is the same for every
  value of the fields \<open>area_ratio\<close> and \<open>C_ratio\<close>, \<open>None\<close> included, and it is never
  the TypeError of arithmetic on \<open>None\<close>: neither field is read.
\<close>

theorem supplied_plate_lvl_ignores_ratios:
  "quick_fit_imag_neighs col (g\<lparr>area_ratio := ar, C_ratio := cr\<rparr>)
           imag_neigh_params no_neighs (Some pl)
         = quick_fit_imag_neighs col g imag_neigh_params no_neighs (Some pl)
     \<and> quick_fit_imag_neighs col g imag_neigh_params no_neighs (Some pl) \<noteq> Inl TypeError"
proof
  show "quick_fit_imag_neighs col (g\<lparr>area_ratio := ar, C_ratio := cr\<rparr>)
           imag_neigh_params no_neighs (Some pl)
         = quick_fit_imag_neighs col g imag_neigh_params no_neighs (Some pl)"
    unfolding quick_fit_imag_neighs_def
    by (cases no_neighs)
       (simp_all add: calc_no_neighs_supplied_ratios sep_by_N_0_ratios
          process_quick_ests_supplied_ratios)
next
  show "quick_fit_imag_neighs col g imag_neigh_params no_neighs (Some pl) \<noteq> Inl TypeError"
    by (auto simp: quick_fit_imag_neighs_def Let_def seq_Inl_iff
          index_of_no_TypeError py_nth_no_TypeError
          calc_no_neighs_supplied_no_TypeError sep_by_N_0_no_TypeError
          fit_imag_neigh_cultures_no_TypeError process_quick_ests_supplied_no_TypeError
          split: option.splits)
qed

text \<open>
  The stage on the plate of two rows and two columns with both ratios \<open>None\<close> and the
  plate-level parameters \<open>[0.01, 5, 0.5]\<close>: the guess is returned, with the growth
  rates clipped at three times the guess 1.
\<close>

theorem supplied_plate_lvl_ignores_ratios_witness:
  "quick_fit_imag_neighs overshoot_collab (guesser_2x2\<lparr>area_ratio := None, C_ratio := None\<rparr>)
      [1 / 2, 1 / 2, 1 / 10, 3 / 2, 1] None (Some [1 / 100, 5, 1 / 2])
    = quick_fit_imag_neighs overshoot_collab guesser_2x2
      [1 / 2, 1 / 2, 1 / 10, 3 / 2, 1] None (Some [1 / 100, 5, 1 / 2])
   \<and> map_sum id fst (quick_fit_imag_neighs overshoot_collab
        (guesser_2x2\<lparr>area_ratio := None, C_ratio := None\<rparr>)
        [1 / 2, 1 / 2, 1 / 10, 3 / 2, 1] None (Some [1 / 100, 5, 1 / 2]))
     = Inr [Fl (1 / 100), Fl 5, Fl (1 / 2), Fl 3, Fl 3, Fl 3, Fl 0]"
proof -
  have "map_sum id fst (quick_fit_imag_neighs overshoot_collab
        (guesser_2x2\<lparr>area_ratio := None, C_ratio := None\<rparr>)
        [1 / 2, 1 / 2, 1 / 10, 3 / 2, 1] None (Some [1 / 100, 5, 1 / 2]))
     = Inr [Fl (1 / 100), Fl 5, Fl (1 / 2), Fl 3, Fl 3, Fl 3, Fl 0]"
    by code_simp
  with supplied_plate_lvl_ignores_ratios
    [where col = overshoot_collab and g = guesser_2x2 and ar = None and cr = None
       and imag_neigh_params = "[1 / 2, 1 / 2, 1 / 10, 3 / 2, 1]" and no_neighs = None
       and pl = "[1 / 100, 5, 1 / 2]"]
  show ?thesis by simp
qed

subsection \<open>Growth rates in the processed guess\<close>

lemma fold_put_pairs:
  "length (fold (\<lambda>(i, v) h. h[i := v]) zs h) = length h
   \<and> (\<forall>i < length h. i \<notin> fst ` set zs \<longrightarrow> fold (\<lambda>(i, v) h. h[i := v]) zs h ! i = h ! i)
   \<and> (\<forall>i < length h. i \<in> fst ` set zs \<longrightarrow> fold (\<lambda>(i, v) h. h[i := v]) zs h ! i \<in> snd ` set zs)"
proof (induction zs arbitrary: h)
  case Nil
  then show ?case by simp
next
  case (Cons z zs)
  obtain j w where z: "z = (j, w)" by (cases z)
  let ?h = "h[j := w]"
  note IH = Cons.IH [of ?h]
  show ?case
  proof (intro conjI allI impI)
    show "length (fold (\<lambda>(i, v) h. h[i := v]) (z # zs) h) = length h"
      using IH by (simp add: z)
  next
    fix i assume "i < length h" "i \<notin> fst ` set (z # zs)"
    then show "fold (\<lambda>(i, v) h. h[i := v]) (z # zs) h ! i = h ! i"
      using IH by (simp add: z)
  next
    fix i assume i: "i < length h" "i \<in> fst ` set (z # zs)"
    show "fold (\<lambda>(i, v) h. h[i := v]) (z # zs) h ! i \<in> snd ` set (z # zs)"
    proof (cases "i \<in> fst ` set zs")
      case True
      then show ?thesis using IH i by (simp add: z)
    next
      case False
      with i have "i = j" by (simp add: z)
      with False IH i show ?thesis by (simp add: z)
    qed
  qed
qed

lemma fold_put_one:
  "length (fold (\<lambda>i h. h[i := w]) idx h) = length h
   \<and> (\<forall>i < length h. i \<notin> set idx \<longrightarrow> fold (\<lambda>i h. h[i := w]) idx h ! i = h ! i)
   \<and> (\<forall>i < length h. i \<in> set idx \<longrightarrow> fold (\<lambda>i h. h[i := w]) idx h ! i = w)"
proof (induction idx arbitrary: h)
  case Nil
  then show ?case by simp
next
  case (Cons j idx)
  note IH = Cons.IH [of "h[j := w]"]
  show ?case
  proof (intro conjI allI impI)
    show "length (fold (\<lambda>i h. h[i := w]) (j # idx) h) = length h"
      using IH by simp
  next
    fix i assume "i < length h" "i \<notin> set (j # idx)"
    then show "fold (\<lambda>i h. h[i := w]) (j # idx) h ! i = h ! i"
      using IH by simp
  next
    fix i assume i: "i < length h" "i \<in> set (j # idx)"
    show "fold (\<lambda>i h. h[i := w]) (j # idx) h ! i = w"
    proof (cases "i \<in> set idx")
      case True
      then show ?thesis using IH i by simp
    next
      case False
      with i have "i = j" by simp
      with False IH i show ?thesis by simp
    qed
  qed
qed

lemma np_put_result:
  assumes "np_put h idx vals = Inr r"
  shows "length r = length h"
    and "\<And>i. i < length h \<Longrightarrow> i \<notin> set idx \<Longrightarrow> r ! i = h ! i"
    and "\<And>i. i < length h \<Longrightarrow> i \<in> set idx \<Longrightarrow> r ! i \<in> set vals"
proof -
  consider (pairs) "length vals = length idx" "r = fold (\<lambda>(i, v) h. h[i := v]) (zip idx vals) h"
    | (one) "length vals = 1" "r = fold (\<lambda>i h. h[i := hd vals]) idx h"
    using assms by (auto simp: np_put_def split: if_splits)
  then have "length r = length h
     \<and> (\<forall>i < length h. i \<notin> set idx \<longrightarrow> r ! i = h ! i)
     \<and> (\<forall>i < length h. i \<in> set idx \<longrightarrow> r ! i \<in> set vals)"
  proof cases
    case pairs
    then have "fst ` set (zip idx vals) = set idx" "snd ` set (zip idx vals) = set vals"
      by (simp_all flip: set_map)
    with fold_put_pairs [of "zip idx vals" h] pairs show ?thesis by simp
  next
    case one
    then have "hd vals \<in> set vals" by (cases vals) auto
    with fold_put_one [of "hd vals" idx h] one show ?thesis by simp
  qed
  then show "length r = length h"
    and "\<And>i. i < length h \<Longrightarrow> i \<notin> set idx \<Longrightarrow> r ! i = h ! i"
    and "\<And>i. i < length h \<Longrightarrow> i \<in> set idx \<Longrightarrow> r ! i \<in> set vals"
    by blast+
qed

lemma put_growth_rates:
  assumes put: "np_put (replicate n 0) gs (if clip then map (\<lambda>b. min b (3 * b_guess)) b_col
                                        else b_col) = Inr b_ests"
  shows "length b_ests = n
     \<and> (\<forall>i < n. i \<notin> set gs \<longrightarrow> b_ests ! i = 0)
     \<and> (clip \<longrightarrow> (\<forall>i < n. i \<in> set gs \<longrightarrow> b_ests ! i \<le> 3 * b_guess))"
proof -
  note P = np_put_result [OF put]
  have "b_ests ! i \<le> 3 * b_guess" if "clip" "i < n" "i \<in> set gs" for i
  proof -
    from P(3) [of i] that have "b_ests ! i \<in> set (map (\<lambda>b. min b (3 * b_guess)) b_col)"
      by simp
    then show ?thesis by auto
  qed
  with P(1) P(2) show ?thesis by simp
qed

lemma process_quick_ests_shape:
  assumes res: "process_quick_ests col g m nm b_guess clip h plate_lvl = Inr v"
  shows "\<exists>b_ests. length b_ests = no_cultures (plate g)
     \<and> (\<forall>i < no_cultures (plate g). i \<notin> set (growers (plate g)) \<longrightarrow> b_ests ! i = 0)
     \<and> (clip \<longrightarrow> (\<forall>i < no_cultures (plate g). i \<in> set (growers (plate g))
            \<longrightarrow> b_ests ! i \<le> 3 * b_guess))
     \<and> (case plate_lvl of
          Some pl \<Rightarrow> v = map Fl (pl @ b_ests)
        | None \<Rightarrow> (\<exists>amounts k. index_of (params (model g)) ''kn'' = Inr k
                     \<and> np_insert (map Fl (amounts @ b_ests)) k NaN = Inr v))"
proof (cases plate_lvl)
  case (Some pl)
  with res obtain b_col b_ests where
    put: "np_put (replicate (no_cultures (plate g)) 0) (growers (plate g))
            (if clip then map (\<lambda>b. min b (3 * b_guess)) b_col else b_col) = Inr b_ests"
    and v: "v = map Fl (pl @ b_ests)"
    by (auto simp: process_quick_ests_def Let_def seq_Inr_iff)
  from put_growth_rates [OF put] v Some show ?thesis by auto
next
  case None
  with res obtain b_col b_ests C_0 N_0 k where
    put: "np_put (replicate (no_cultures (plate g)) 0) (growers (plate g))
            (if clip then map (\<lambda>b. min b (3 * b_guess)) b_col else b_col) = Inr b_ests"
    and k: "index_of (params (model g)) ''kn'' = Inr k"
    and v: "np_insert (map Fl (C_0 @ N_0 @ b_ests)) k NaN = Inr v"
    by (auto simp: process_quick_ests_def Let_def seq_Inr_iff split: option.splits)
  from v have "np_insert (map Fl ((C_0 @ N_0) @ b_ests)) k NaN = Inr v" by simp
  with k have "\<exists>amounts k. index_of (params (model g)) ''kn'' = Inr k
                     \<and> np_insert (map Fl (amounts @ b_ests)) k NaN = Inr v"
    by blast
  with put_growth_rates [OF put] None show ?thesis by auto
qed

lemma growth_rates_of_shape:
  assumes len: "length b_ests = no_cultures (plate g)"
    and shape: "(case plate_lvl of
          Some pl \<Rightarrow> v = map Fl (pl @ b_ests)
        | None \<Rightarrow> (\<exists>amounts k. index_of (params (model g)) ''kn'' = Inr k
                     \<and> np_insert (map Fl (amounts @ b_ests)) k NaN = Inr v))"
    and kn: "index_of (params (model g)) ''kn'' = Inr kn_index"
    and before: "kn_index + no_cultures (plate g) < length v"
  shows "growth_rates g v = map Fl b_ests"
proof (cases plate_lvl)
  case (Some pl)
  with shape len show ?thesis by (simp add: growth_rates_def)
next
  case None
  with shape kn obtain amounts where
    ins: "np_insert (map Fl (amounts @ b_ests)) kn_index NaN = Inr v"
    by auto
  then have v: "v = take kn_index (map Fl (amounts @ b_ests)) @ NaN
                     # drop kn_index (map Fl (amounts @ b_ests))"
    and le: "kn_index \<le> length amounts + length b_ests"
    by (auto simp: np_insert_def split: if_splits)
  have lv: "length v = Suc (length amounts + length b_ests)"
    using le by (simp add: v)
  with before len have k: "kn_index \<le> length amounts" by simp
  have "v = map Fl (take kn_index amounts) @ NaN # map Fl (drop kn_index amounts) @ map Fl b_ests"
    using k by (simp add: v take_map drop_map)
  then have "v = (map Fl (take kn_index amounts) @ NaN # map Fl (drop kn_index amounts))
                 @ map Fl b_ests"
    by simp
  moreover have "length (map Fl (take kn_index amounts) @ NaN # map Fl (drop kn_index amounts))
       = length v - no_cultures (plate g)"
    using k lv len by simp
  ultimately show ?thesis
    unfolding growth_rates_def by (metis append_eq_conv_conj)
qed

lemma map_sum_fst_Inr_iff:
  "map_sum id fst r = Inr v \<longleftrightarrow> (\<exists>cs. r = Inr (v, cs))"
  by (cases r) auto

lemma quick_fit_log_eq_processed:
  assumes "map_sum id fst (quick_fit_log_eq col g b_guess) = Inr v"
  shows "\<exists>cs. process_quick_ests col (g\<lparr>plate := (plate g)\<lparr>cultures := cs\<rparr>\<rparr>) IndeModel
           ''log_est'' b_guess False ''first_guess'' None = Inr v"
  using assms
  by (auto simp: map_sum_fst_Inr_iff quick_fit_log_eq_def Let_def seq_Inr_iff)

lemma quick_fit_imag_neighs_processed:
  assumes "map_sum id fst (quick_fit_imag_neighs col g imag_neigh_params no_neighs plate_lvl)
           = Inr v"
  shows "\<exists>cs m. process_quick_ests col (g\<lparr>plate := (plate g)\<lparr>cultures := cs\<rparr>\<rparr>) m
           ''im_neigh_est'' (last imag_neigh_params) True ''first_guess'' plate_lvl = Inr v"
  using assms
  by (auto simp: map_sum_fst_Inr_iff quick_fit_imag_neighs_def Let_def seq_Inr_iff
      split: if_splits)

lemma processed_growth_rates:
  assumes res: "process_quick_ests col (g\<lparr>plate := (plate g)\<lparr>cultures := cs\<rparr>\<rparr>) m nm b_guess
             clip h plate_lvl = Inr v"
    and kn: "index_of (params (model g)) ''kn'' = Inr kn_index"
    and before: "kn_index + no_cultures (plate g) < length v"
  shows "\<exists>b_ests. growth_rates g v = map Fl b_ests
     \<and> length b_ests = no_cultures (plate g)
     \<and> (\<forall>i < no_cultures (plate g). i \<notin> set (growers (plate g)) \<longrightarrow> b_ests ! i = 0)
     \<and> (clip \<longrightarrow> (\<forall>i < no_cultures (plate g). i \<in> set (growers (plate g))
            \<longrightarrow> b_ests ! i \<le> 3 * b_guess))"
proof -
  let ?g = "g\<lparr>plate := (plate g)\<lparr>cultures := cs\<rparr>\<rparr>"
  from process_quick_ests_shape [OF res] obtain b_ests where
    len: "length b_ests = no_cultures (plate ?g)"
    and zero: "\<forall>i < no_cultures (plate g). i \<notin> set (growers (plate g)) \<longrightarrow> b_ests ! i = 0"
    and clipped: "clip \<longrightarrow> (\<forall>i < no_cultures (plate g). i \<in> set (growers (plate g))
            \<longrightarrow> b_ests ! i \<le> 3 * b_guess)"
    and shape: "(case plate_lvl of
          Some pl \<Rightarrow> v = map Fl (pl @ b_ests)
        | None \<Rightarrow> (\<exists>amounts k. index_of (params (model ?g)) ''kn'' = Inr k
                     \<and> np_insert (map Fl (amounts @ b_ests)) k NaN = Inr v))"
    by auto
  have "growth_rates ?g v = map Fl b_ests"
    using kn before by (intro growth_rates_of_shape [OF len shape]) simp_all
  then have "growth_rates g v = map Fl b_ests" by (simp add: growth_rates_def)
  with len zero clipped show ?thesis by auto
qed

text \<open>
  Claim C3. In a parameter vector that a quick-fit stage returns, with the index of
  \<open>kn\<close> before the growth rates, the growth-rate part has one entry per culture and the
  entries of the cultures that do not grow are zero. From the imaginary-neighbour
  stage, which clips, the estimate of every growing culture is at most three times the
  guess \<open>b_guess\<close> (the last imaginary-neighbour parameter), and so is every entry, the
  zeros included, when \<open>b_guess\<close> is not negative. The logistic-equivalent stage does
  not clip.
\<close>

theorem quick_fit_growth_rates:
  assumes kn: "index_of (params (model g)) ''kn'' = Inr kn_index"
    and before: "kn_index + no_cultures (plate g) < length v"
  shows "(map_sum id fst (quick_fit_log_eq col g b_guess) = Inr v \<longrightarrow>
            length (growth_rates g v) = no_cultures (plate g)
          \<and> (\<forall>i < no_cultures (plate g). i \<notin> set (growers (plate g))
                \<longrightarrow> growth_rates g v ! i = Fl 0))
     \<and> (map_sum id fst (quick_fit_imag_neighs col g imag_neigh_params no_neighs plate_lvl)
          = Inr v \<longrightarrow>
            length (growth_rates g v) = no_cultures (plate g)
          \<and> (\<forall>i < no_cultures (plate g). i \<notin> set (growers (plate g))
                \<longrightarrow> growth_rates g v ! i = Fl 0)
          \<and> (\<forall>i < no_cultures (plate g). i \<in> set (growers (plate g))
                \<longrightarrow> (\<exists>b. growth_rates g v ! i = Fl b \<and> b \<le> 3 * last imag_neigh_params))
          \<and> (0 \<le> last imag_neigh_params
                \<longrightarrow> (\<forall>i < no_cultures (plate g).
                       \<exists>b. growth_rates g v ! i = Fl b \<and> b \<le> 3 * last imag_neigh_params)))"
proof (intro conjI impI)
  assume "map_sum id fst (quick_fit_log_eq col g b_guess) = Inr v"
  from quick_fit_log_eq_processed [OF this] obtain cs where
    "process_quick_ests col (g\<lparr>plate := (plate g)\<lparr>cultures := cs\<rparr>\<rparr>) IndeModel
           ''log_est'' b_guess False ''first_guess'' None = Inr v" ..
  from processed_growth_rates [OF this kn before] obtain b_ests where
    "growth_rates g v = map Fl b_ests" "length b_ests = no_cultures (plate g)"
    "\<forall>i < no_cultures (plate g). i \<notin> set (growers (plate g)) \<longrightarrow> b_ests ! i = 0"
    by auto
  then show "length (growth_rates g v) = no_cultures (plate g)"
    and "\<forall>i < no_cultures (plate g). i \<notin> set (growers (plate g))
                \<longrightarrow> growth_rates g v ! i = Fl 0"
    by simp_all
next
  assume "map_sum id fst (quick_fit_imag_neighs col g imag_neigh_params no_neighs plate_lvl)
          = Inr v"
  from quick_fit_imag_neighs_processed [OF this] obtain cs m where
    "process_quick_ests col (g\<lparr>plate := (plate g)\<lparr>cultures := cs\<rparr>\<rparr>) m
           ''im_neigh_est'' (last imag_neigh_params) True ''first_guess'' plate_lvl = Inr v"
    by blast
  from processed_growth_rates [OF this kn before] obtain b_ests where
    gr: "growth_rates g v = map Fl b_ests" and len: "length b_ests = no_cultures (plate g)"
    and zero: "\<forall>i < no_cultures (plate g). i \<notin> set (growers (plate g)) \<longrightarrow> b_ests ! i = 0"
    and clipped: "\<forall>i < no_cultures (plate g). i \<in> set (growers (plate g))
            \<longrightarrow> b_ests ! i \<le> 3 * last imag_neigh_params"
    by auto
  show "length (growth_rates g v) = no_cultures (plate g)"
    using gr len by simp
  show "\<forall>i < no_cultures (plate g). i \<notin> set (growers (plate g))
                \<longrightarrow> growth_rates g v ! i = Fl 0"
    using gr len zero by simp
  show "\<forall>i < no_cultures (plate g). i \<in> set (growers (plate g))
                \<longrightarrow> (\<exists>b. growth_rates g v ! i = Fl b \<and> b \<le> 3 * last imag_neigh_params)"
    using gr len clipped by simp
  show "\<forall>i < no_cultures (plate g).
           \<exists>b. growth_rates g v ! i = Fl b \<and> b \<le> 3 * last imag_neigh_params"
    if "0 \<le> last imag_neigh_params"
  proof (intro allI impI)
    fix i assume i: "i < no_cultures (plate g)"
    show "\<exists>b. growth_rates g v ! i = Fl b \<and> b \<le> 3 * last imag_neigh_params"
    proof (cases "i \<in> set (growers (plate g))")
      case True
      with i gr len clipped show ?thesis by simp
    next
      case False
      with i gr len zero that show ?thesis by simp
    qed
  qed
qed

lemma log_eq_2x2:
  "map_sum id fst (quick_fit_log_eq overshoot_collab guesser_2x2 1)
     = Inr [Fl 1, Fl 6, NaN, Fl 4, Fl 4, Fl 4, Fl 0]"
  by code_simp

lemma imag_neighs_2x2:
  "map_sum id fst (quick_fit_imag_neighs overshoot_collab guesser_2x2
        [1 / 2, 1 / 2, 1 / 10, 3 / 2, 1] None None)
     = Inr [Fl 1, Fl 6, NaN, Fl 3, Fl 3, Fl 3, Fl 0]"
  by code_simp

text \<open>
  Both stages on the plate of two rows and two columns, whose last culture is empty,
  with the guess 1 and the fit that returns four times the guess.
\<close>

theorem quick_fit_growth_rates_witness:
  "index_of (params (model guesser_2x2)) ''kn'' = Inr 2
   \<and> map_sum id fst (quick_fit_log_eq overshoot_collab guesser_2x2 1)
       = Inr [Fl 1, Fl 6, NaN, Fl 4, Fl 4, Fl 4, Fl 0]
   \<and> map_sum id fst (quick_fit_imag_neighs overshoot_collab guesser_2x2
        [1 / 2, 1 / 2, 1 / 10, 3 / 2, 1] None None)
       = Inr [Fl 1, Fl 6, NaN, Fl 3, Fl 3, Fl 3, Fl 0]
   \<and> growth_rates guesser_2x2 [Fl 1, Fl 6, NaN, Fl 4, Fl 4, Fl 4, Fl 0] ! 3 = Fl 0
   \<and> growth_rates guesser_2x2 [Fl 1, Fl 6, NaN, Fl 3, Fl 3, Fl 3, Fl 0] ! 3 = Fl 0
   \<and> (\<exists>b. growth_rates guesser_2x2 [Fl 1, Fl 6, NaN, Fl 3, Fl 3, Fl 3, Fl 0] ! 0 = Fl b
          \<and> b \<le> 3 * 1)
   \<and> (\<exists>b. growth_rates guesser_2x2 [Fl 1, Fl 6, NaN, Fl 3, Fl 3, Fl 3, Fl 0] ! 3 = Fl b
          \<and> b \<le> 3 * 1)"
proof -
  have kn: "index_of (params (model guesser_2x2)) ''kn'' = Inr 2"
    by (simp add: guesser_2x2_def model_1N_def)
  have n: "no_cultures (plate guesser_2x2) = 4" "growers (plate guesser_2x2) = [0, 1, 2]"
    by (simp_all add: guesser_2x2_def plate_2x2_def)
  have before: "2 + no_cultures (plate guesser_2x2)
      < length [Fl 1, Fl 6, NaN, Fl 4, Fl 4, Fl 4, Fl 0]"
    "2 + no_cultures (plate guesser_2x2)
      < length [Fl 1, Fl 6, NaN, Fl 3, Fl 3, Fl 3, Fl 0]"
    by (simp_all add: n)
  from quick_fit_growth_rates [OF kn before(1), of overshoot_collab 1] log_eq_2x2
  have 1: "growth_rates guesser_2x2 [Fl 1, Fl 6, NaN, Fl 4, Fl 4, Fl 4, Fl 0] ! 3 = Fl 0"
    by (simp add: n)
  from quick_fit_growth_rates [OF kn before(2), of overshoot_collab _
      "[1 / 2, 1 / 2, 1 / 10, 3 / 2, 1]" None None] imag_neighs_2x2
  have 2: "growth_rates guesser_2x2 [Fl 1, Fl 6, NaN, Fl 3, Fl 3, Fl 3, Fl 0] ! 3 = Fl 0"
    and 3: "\<exists>b. growth_rates guesser_2x2 [Fl 1, Fl 6, NaN, Fl 3, Fl 3, Fl 3, Fl 0] ! 0 = Fl b
          \<and> b \<le> 3 * 1"
      "\<exists>b. growth_rates guesser_2x2 [Fl 1, Fl 6, NaN, Fl 3, Fl 3, Fl 3, Fl 0] ! 3 = Fl b
          \<and> b \<le> 3 * 1"
    by (simp_all add: n)
  from kn log_eq_2x2 imag_neighs_2x2 1 2 3 show ?thesis by blast
qed

text \<open>
  The zeros of the empty cultures are stored after the clipping: with the negative
  guess \<open>- 1\<close> the estimates of the growing cultures are at most \<open>- 3\<close>, and the entry
  of the empty culture is zero.
\<close>

lemma negative_b_guess_zero_entry:
  "map_sum id fst (quick_fit_imag_neighs overshoot_collab guesser_2x2
        [1 / 2, 1 / 2, 1 / 10, 3 / 2, - 1] None None)
     = Inr [Fl 1, Fl 6, NaN, Fl (- 4), Fl (- 4), Fl (- 4), Fl 0]
   \<and> \<not> (0 :: real) \<le> 3 * (- 1)"
  by code_simp

subsection \<open>The guess of the diffusion rate\<close>

lemma sq_residuals_shift:
  fixes m c m' c' :: real
  shows "sum_list (map (\<lambda>(x, y). (m' * x + c' - y)\<^sup>2) zs)
   = sum_list (map (\<lambda>(x, y). (m * x + c - y)\<^sup>2) zs)
     + 2 * (m' - m) * sum_list (map (\<lambda>(x, y). (m * x + c - y) * x) zs)
     + 2 * (c' - c) * sum_list (map (\<lambda>(x, y). m * x + c - y) zs)
     + sum_list (map (\<lambda>(x, y). ((m' - m) * x + (c' - c))\<^sup>2) zs)"
  by (induction zs) (auto simp: algebra_simps power2_eq_square)

lemma sum_residuals:
  fixes m c :: real
  shows "sum_list (map (\<lambda>(x, y). m * x + c - y) zs)
   = m * sum_list (map fst zs) + c * real (length zs) - sum_list (map snd zs)"
  by (induction zs) (auto simp: algebra_simps)

lemma sum_residuals_x:
  fixes m c :: real
  shows "sum_list (map (\<lambda>(x, y). (m * x + c - y) * x) zs)
   = m * sum_list (map (\<lambda>(x, y). x * x) zs) + c * sum_list (map fst zs)
     - sum_list (map (\<lambda>(x, y). x * y) zs)"
  by (induction zs) (auto simp: algebra_simps)

lemma sum_sq_nonneg: "0 \<le> sum_list (map (\<lambda>(x, y). (f x y :: real)\<^sup>2) zs)"
  by (induction zs) auto

text \<open>The normal equations are enough.\<close>

lemma normal_equations_minimise:
  assumes "length ys = length xs"
    and n1: "m * sum_list xs + c * real (length xs) = sum_list ys"
    and n2: "m * sum_list (map (\<lambda>x. x * x) xs) + c * sum_list xs
             = sum_list (map (\<lambda>(x, y). x * y) (zip xs ys))"
  shows "sq_residuals xs ys m c \<le> sq_residuals xs ys m' c'"
proof -
  let ?zs = "zip xs ys"
  have fst: "map fst ?zs = xs" and snd: "map snd ?zs = ys" and len: "length ?zs = length xs"
    using assms(1) by simp_all
  have xx: "sum_list (map (\<lambda>(x, y). x * x) ?zs) = sum_list (map (\<lambda>x. x * x) xs)"
  proof -
    have "map (\<lambda>(x, y). x * x) ?zs = map (\<lambda>x. x * x) (map fst ?zs)"
      by (simp add: case_prod_unfold)
    then show ?thesis by (simp only: fst)
  qed
  have r: "sum_list (map (\<lambda>(x, y). m * x + c - y) ?zs) = 0"
    using n1 assms(1) by (simp add: sum_residuals fst snd)
  have rx: "sum_list (map (\<lambda>(x, y). (m * x + c - y) * x) ?zs) = 0"
    using n2 by (simp add: sum_residuals_x fst xx)
  have "sq_residuals xs ys m' c' = sq_residuals xs ys m c
      + sum_list (map (\<lambda>(x, y). ((m' - m) * x + (c' - c))\<^sup>2) ?zs)"
    unfolding sq_residuals_def
    by (subst sq_residuals_shift [of m' c' ?zs m c]) (simp add: r rx)
  then show ?thesis using sum_sq_nonneg [of "\<lambda>x y. (m' - m) * x + (c' - c)" ?zs] by simp
qed

lemma sum_sq_dev:
  fixes mu :: real
  shows "sum_list (map (\<lambda>x. (x - mu)\<^sup>2) xs)
     = sum_list (map (\<lambda>x. x * x) xs) - 2 * mu * sum_list xs + real (length xs) * mu\<^sup>2"
  by (induction xs) (auto simp: algebra_simps power2_eq_square)

lemma sq_dev_zero:
  fixes mu :: real
  assumes "sum_list (map (\<lambda>x. (x - mu)\<^sup>2) xs) = 0"
  shows "\<forall>x \<in> set xs. x = mu"
  using assms
proof (induction xs)
  case Nil
  then show ?case by simp
next
  case (Cons a xs)
  have "0 \<le> sum_list (map (\<lambda>x. (x - mu)\<^sup>2) xs)"
    by (rule sum_list_nonneg) auto
  moreover have "0 \<le> (a - mu)\<^sup>2" by simp
  ultimately have "(a - mu)\<^sup>2 = 0 \<and> sum_list (map (\<lambda>x. (x - mu)\<^sup>2) xs) = 0"
    using Cons.prems by (simp add: add_nonneg_eq_0_iff)
  with Cons.IH show ?case by simp
qed

lemma det_zero_all_equal:
  fixes xs :: "real list"
  assumes ne: "xs \<noteq> []"
    and det: "real (length xs) * sum_list (map (\<lambda>x. x * x) xs) - sum_list xs * sum_list xs = 0"
  shows "\<forall>x \<in> set xs. x = hd xs"
proof -
  define n where "n = real (length xs)"
  define mu where "mu = sum_list xs / n"
  have n: "n \<noteq> 0" using ne by (simp add: n_def)
  have nmu: "n * mu = sum_list xs" using n by (simp add: mu_def)
  have "n * sum_list (map (\<lambda>x. (x - mu)\<^sup>2) xs)
      = n * sum_list (map (\<lambda>x. x * x) xs) - 2 * (n * mu) * sum_list xs + (n * mu) * (n * mu)"
    by (subst sum_sq_dev) (simp add: n_def power2_eq_square algebra_simps)
  then have "n * sum_list (map (\<lambda>x. (x - mu)\<^sup>2) xs)
      = n * sum_list (map (\<lambda>x. x * x) xs) - sum_list xs * sum_list xs"
    by (simp add: nmu)
  with det n have "sum_list (map (\<lambda>x. (x - mu)\<^sup>2) xs) = 0"
    by (simp add: n_def)
  then have all: "\<forall>x \<in> set xs. x = mu" by (rule sq_dev_zero)
  moreover have "hd xs \<in> set xs" using ne by simp
  ultimately show ?thesis by metis
qed

lemma sum_list_const:
  fixes xs :: "real list"
  assumes "\<forall>x \<in> set xs. x = a"
  shows "sum_list xs = real (length xs) * a"
    and "sum_list (map (\<lambda>x. x * x) xs) = real (length xs) * (a * a)"
    and "length ys = length xs \<Longrightarrow>
         sum_list (map (\<lambda>(x, y). x * y) (zip xs ys)) = a * sum_list ys"
proof -
  from assms have xs: "xs = replicate (length xs) a"
    by (simp add: replicate_length_same)
  show "sum_list xs = real (length xs) * a"
    by (subst xs) (simp add: sum_list_replicate)
  show "sum_list (map (\<lambda>x. x * x) xs) = real (length xs) * (a * a)"
    by (subst xs) (simp add: sum_list_replicate)
  show "sum_list (map (\<lambda>(x, y). x * y) (zip xs ys)) = a * sum_list ys"
    if "length ys = length xs"
    using that assms
  proof (induction xs ys rule: list_induct2')
    case (4 x xs y ys)
    then show ?case by (simp add: algebra_simps)
  qed simp_all
qed

lemma lstsq_line_normal:
  assumes "lstsq_line xs ys = Inr (m, c)"
  shows "length ys = length xs"
    and "m * sum_list xs + c * real (length xs) = sum_list ys"
    and "m * sum_list (map (\<lambda>x. x * x) xs) + c * sum_list xs
             = sum_list (map (\<lambda>(x, y). x * y) (zip xs ys))"
proof -
  define n where "n = real (length xs)"
  define sx where "sx = sum_list xs"
  define sy where "sy = sum_list ys"
  define sxx where "sxx = sum_list (map (\<lambda>x. x * x) xs)"
  define sxy where "sxy = sum_list (map (\<lambda>(x, y). x * y) (zip xs ys))"
  define det where "det = n * sxx - sx * sx"
  from assms have ne: "xs \<noteq> []" and len: "length ys = length xs"
    by (auto simp: lstsq_line_def Let_def split: if_splits)
  have n: "n \<noteq> 0" using ne by (simp add: n_def)
  show "length ys = length xs" by (rule len)
  have "m * sx + c * n = sy \<and> m * sxx + c * sx = sxy"
  proof (cases "det = 0")
    case False
    with assms ne len have m: "m = (n * sxy - sx * sy) / det"
      and c: "c = (sxx * sy - sx * sxy) / det"
      by (auto simp: lstsq_line_def Let_def n_def sx_def sy_def sxx_def sxy_def det_def)
    have md: "m * det = n * sxy - sx * sy" and cd: "c * det = sxx * sy - sx * sxy"
      using False by (simp_all add: m c)
    have "det * (m * sx + c * n) = (m * det) * sx + (c * det) * n"
      by (simp add: algebra_simps)
    also have "\<dots> = (n * sxy - sx * sy) * sx + (sxx * sy - sx * sxy) * n"
      by (simp only: md cd)
    also have "\<dots> = det * sy"
      by (simp add: det_def algebra_simps)
    finally have 1: "det * (m * sx + c * n) = det * sy" .
    have "det * (m * sxx + c * sx) = (m * det) * sxx + (c * det) * sx"
      by (simp add: algebra_simps)
    also have "\<dots> = (n * sxy - sx * sy) * sxx + (sxx * sy - sx * sxy) * sx"
      by (simp only: md cd)
    also have "\<dots> = det * sxy"
      by (simp add: det_def algebra_simps)
    finally have 2: "det * (m * sxx + c * sx) = det * sxy" .
    from 1 2 False show ?thesis by simp
  next
    case True
    define x0 where "x0 = hd xs"
    define ybar where "ybar = sy / n"
    from True assms ne len have m: "m = x0 * ybar / (x0 * x0 + 1)"
      and c: "c = ybar / (x0 * x0 + 1)"
      by (auto simp: lstsq_line_def Let_def n_def sx_def sy_def sxx_def sxy_def det_def
          x0_def ybar_def)
    have "\<forall>x \<in> set xs. x = x0"
      unfolding x0_def using True
      by (intro det_zero_all_equal [OF ne]) (simp add: det_def n_def sxx_def sx_def)
    note S = sum_list_const [OF this]
    have sx: "sx = n * x0" and sxx: "sxx = n * (x0 * x0)" and sxy: "sxy = x0 * sy"
      using S(1) S(2) S(3) [OF len] by (simp_all add: sx_def sxx_def sxy_def n_def sy_def)
    have pos: "x0 * x0 + 1 \<noteq> 0"
      using zero_le_square [of x0] by linarith
    define d where "d = x0 * x0 + 1"
    have d: "d \<noteq> 0" using pos by (simp add: d_def)
    have md: "m * d = x0 * ybar" and cd: "c * d = ybar"
      using d by (simp_all add: m c d_def [symmetric])
    have "(m * x0 + c) * d = (m * d) * x0 + c * d"
      by (simp add: algebra_simps)
    also have "\<dots> = (x0 * ybar) * x0 + ybar"
      by (simp only: md cd)
    also have "\<dots> = ybar * d"
      by (simp add: d_def algebra_simps)
    finally have line: "m * x0 + c = ybar"
      using d by simp
    have sy: "sy = n * ybar" using n by (simp add: ybar_def)
    have "m * sx + c * n = n * (m * x0 + c)" by (simp add: sx algebra_simps)
    moreover have "m * sxx + c * sx = n * x0 * (m * x0 + c)" by (simp add: sx sxx algebra_simps)
    ultimately show ?thesis by (simp add: line sxy sy)
  qed
  then show "m * sum_list xs + c * real (length xs) = sum_list ys"
    and "m * sum_list (map (\<lambda>x. x * x) xs) + c * sum_list xs
             = sum_list (map (\<lambda>(x, y). x * y) (zip xs ys))"
    by (simp_all add: n_def sx_def sy_def sxx_def sxy_def)
qed

lemma lstsq_line_least_squares:
  assumes "lstsq_line xs ys = Inr (m, c)"
  shows "sq_residuals xs ys m c \<le> sq_residuals xs ys m' c'"
  using lstsq_line_normal [OF assms] by (rule normal_equations_minimise)

lemma sq_residuals_zero:
  assumes "sq_residuals xs ys m c = 0" and "length ys = length xs"
  shows "ys = map (\<lambda>x. m * x + c) xs"
  using assms(2) assms(1) unfolding sq_residuals_def
proof (induction ys xs rule: list_induct2)
  case Nil
  then show ?case by simp
next
  case (Cons y ys x xs)
  have "0 \<le> sum_list (map (\<lambda>(x, y). (m * x + c - y)\<^sup>2) (zip xs ys))"
    by (rule sum_sq_nonneg)
  moreover have "0 \<le> (m * x + c - y)\<^sup>2" by simp
  ultimately have "(m * x + c - y)\<^sup>2 = 0
      \<and> sum_list (map (\<lambda>(x, y). (m * x + c - y)\<^sup>2) (zip xs ys)) = 0"
    using Cons.prems by (simp add: add_nonneg_eq_0_iff)
  with Cons.IH show ?case by simp
qed

lemma sq_residuals_exact:
  "sq_residuals xs (map (\<lambda>x. m0 * x + c0) xs) m0 c0 = 0"
  unfolding sq_residuals_def by (induction xs) simp_all

lemma lstsq_line_exact:
  assumes fit: "lstsq_line xs ys = Inr (m, c)" and lin: "ys = map (\<lambda>x. m0 * x + c0) xs"
  shows "ys = map (\<lambda>x. m * x + c) xs"
proof -
  have "sq_residuals xs ys m c \<le> sq_residuals xs ys m0 c0"
    by (rule lstsq_line_least_squares [OF fit])
  then have "sq_residuals xs ys m c \<le> 0" by (simp add: lin sq_residuals_exact)
  moreover have "0 \<le> sq_residuals xs ys m c"
    unfolding sq_residuals_def by (rule sum_sq_nonneg)
  ultimately have "sq_residuals xs ys m c = 0" by simp
  then show ?thesis using lin by (intro sq_residuals_zero) simp_all
qed

lemma line_through_two_points:
  fixes m c m0 c0 :: real
  assumes "m * x1 + c = m0 * x1 + c0" and "m * x2 + c = m0 * x2 + c0" and "x1 \<noteq> x2"
  shows "m = m0 \<and> c = c0"
proof -
  from assms(1,2) have "(m - m0) * (x1 - x2) = 0" by (simp add: algebra_simps)
  with assms(3) have "m = m0" by simp
  with assms(1) show ?thesis by simp
qed

lemma lstsq_line_recovers_law:
  assumes fit: "lstsq_line xs ys = Inr (m, c)" and lin: "ys = map (\<lambda>x. m0 * x + c0) xs"
    and x1: "x1 \<in> set xs" and x2: "x2 \<in> set xs" and ne: "x1 \<noteq> x2"
  shows "m = m0 \<and> c = c0"
proof -
  from lstsq_line_exact [OF fit lin] lin
  have "map (\<lambda>x. m * x + c) xs = map (\<lambda>x. m0 * x + c0) xs" by simp
  then have "\<forall>x \<in> set xs. m * x + c = m0 * x + c0" by simp
  with x1 x2 have "m * x1 + c = m0 * x1 + c0" "m * x2 + c = m0 * x2 + c0" by simp_all
  then show ?thesis using ne by (rule line_through_two_points)
qed

lemma np_linspace_ends:
  assumes "np_linspace start stop num = Inr kns" and "2 \<le> num"
  shows "start \<in> set kns" and "stop \<in> set kns"
proof -
  define n where "n = nat num"
  define d where "d = real_of_int (num - 1)"
  define step where "step = (stop - start) / d"
  from assms have kns: "kns = map (\<lambda>i. start + real i * step) [0..<n]" and n: "2 \<le> n"
    by (auto simp: np_linspace_def n_def step_def d_def split: if_splits)
  have d: "d = real (n - 1)" "d \<noteq> 0"
    using assms(2) by (simp_all add: d_def n_def)
  have mem: "start + real i * step \<in> set kns" if "i < n" for i
    using that by (auto simp: kns)
  from mem [of 0] n show "start \<in> set kns" by simp
  have "d * step = stop - start"
    using d(2) by (simp add: step_def)
  then have "real (n - 1) * step = stop - start"
    by (simp only: d(1))
  with mem [of "n - 1"] n show "stop \<in> set kns" by simp
qed

lemma guess_kn_result:
  assumes "guess_kn col g start stop num ps = Inr v"
  shows "\<exists>kns kn_index C_f_vars C_f_var_true m c.
       np_linspace start stop num = Inr kns
     \<and> index_of (params (model g)) ''kn'' = Inr kn_index
     \<and> sim_C_f_vars col g kn_index ps kns = Inr C_f_vars
     \<and> np_var (py_last (no_cultures (plate g)) (c_meas (plate g))) = Inr C_f_var_true
     \<and> lstsq_line kns C_f_vars = Inr (m, c)
     \<and> m \<noteq> 0
     \<and> kn_index < length ps
     \<and> v = map (clip_min 0) (ps[kn_index := Fl ((C_f_var_true - c) / m)])"
  using assms
  by (auto simp: guess_kn_def seq_Inr_iff py_div_def py_set_def split: if_splits)

text \<open>
  Claim C2. When \<open>guess_kn\<close> returns, the line \<open>variance = m * kn + c\<close> that it fits
  through the swept values of \<open>kn\<close> and the variances of the simulated final
  measurements has the least sum of squared residuals among all lines, and the entry of
  the returned vector at the index of \<open>kn\<close> is \<open>max(0, (C_f_var_true - c) / m)\<close>, where
  \<open>C_f_var_true\<close> is the variance of the measured final amounts. When the simulated
  variances follow a linear law exactly, the fitted line passes through all of them,
  and it is that law as soon as the sweep has two different values.
\<close>

theorem guess_kn_least_squares:
  assumes "guess_kn col g start stop num ps = Inr v"
  shows "\<exists>kns kn_index C_f_vars C_f_var_true m c.
       np_linspace start stop num = Inr kns
     \<and> index_of (params (model g)) ''kn'' = Inr kn_index
     \<and> sim_C_f_vars col g kn_index ps kns = Inr C_f_vars
     \<and> np_var (py_last (no_cultures (plate g)) (c_meas (plate g))) = Inr C_f_var_true
     \<and> (\<forall>m' c'. sq_residuals kns C_f_vars m c \<le> sq_residuals kns C_f_vars m' c')
     \<and> m \<noteq> 0
     \<and> kn_index < length v
     \<and> v ! kn_index = Fl (max 0 ((C_f_var_true - c) / m))
     \<and> (\<forall>m0 c0. C_f_vars = map (\<lambda>kn. m0 * kn + c0) kns \<longrightarrow>
            C_f_vars = map (\<lambda>kn. m * kn + c) kns
          \<and> (2 \<le> num \<and> start \<noteq> stop \<longrightarrow> m = m0 \<and> c = c0))"
proof -
  from guess_kn_result [OF assms] obtain kns kn_index C_f_vars C_f_var_true m c where
    kns: "np_linspace start stop num = Inr kns"
    and idx: "index_of (params (model g)) ''kn'' = Inr kn_index"
    and sims: "sim_C_f_vars col g kn_index ps kns = Inr C_f_vars"
    and true: "np_var (py_last (no_cultures (plate g)) (c_meas (plate g))) = Inr C_f_var_true"
    and fit: "lstsq_line kns C_f_vars = Inr (m, c)"
    and m: "m \<noteq> 0"
    and len: "kn_index < length ps"
    and v: "v = map (clip_min 0) (ps[kn_index := Fl ((C_f_var_true - c) / m)])"
    by blast
  have ols: "\<forall>m' c'. sq_residuals kns C_f_vars m c \<le> sq_residuals kns C_f_vars m' c'"
    using lstsq_line_least_squares [OF fit] by blast
  have entry: "kn_index < length v" "v ! kn_index = Fl (max 0 ((C_f_var_true - c) / m))"
    using len by (simp_all add: v)
  have law: "C_f_vars = map (\<lambda>kn. m * kn + c) kns
          \<and> (2 \<le> num \<and> start \<noteq> stop \<longrightarrow> m = m0 \<and> c = c0)"
    if lin: "C_f_vars = map (\<lambda>kn. m0 * kn + c0) kns" for m0 c0
  proof
    show "C_f_vars = map (\<lambda>kn. m * kn + c) kns"
      by (rule lstsq_line_exact [OF fit lin])
    show "2 \<le> num \<and> start \<noteq> stop \<longrightarrow> m = m0 \<and> c = c0"
    proof
      assume "2 \<le> num \<and> start \<noteq> stop"
      with np_linspace_ends [OF kns] have "start \<in> set kns" "stop \<in> set kns" "start \<noteq> stop"
        by simp_all
      then show "m = m0 \<and> c = c0"
        by (rule lstsq_line_recovers_law [OF fit lin])
    qed
  qed
  from kns idx sims true ols m entry law show ?thesis by blast
qed

lemma guess_kn_2x2:
  "guess_kn overshoot_collab guesser_2x2 0 2 3 [Fl 1, Fl 6, NaN, Fl 1, Fl 1, Fl 1, Fl 0]
     = Inr [Fl 1, Fl 6, Fl (13 / 4), Fl 1, Fl 1, Fl 1, Fl 0]"
  by code_simp

lemma sweep_2x2:
  "np_linspace 0 2 3 = Inr [0, 1, 2]"
  "index_of (params (model guesser_2x2)) ''kn'' = Inr 2"
  "sim_C_f_vars overshoot_collab guesser_2x2 2 [Fl 1, Fl 6, NaN, Fl 1, Fl 1, Fl 1, Fl 0]
     [0, 1, 2] = Inr [1, 5, 9]"
  "np_var (py_last (no_cultures (plate guesser_2x2)) (c_meas (plate guesser_2x2))) = Inr 14"
  by code_simp+

text \<open>
  The sweep \<open>0, 1, 2\<close> on the plate of two rows and two columns: the simulated variances
  are \<open>1, 5, 9\<close>, the fitted line is \<open>4 * kn + 1\<close>, the measured variance is 14 and the
  guess of \<open>kn\<close> is \<open>13 / 4\<close>.
\<close>

theorem guess_kn_least_squares_witness:
  "guess_kn overshoot_collab guesser_2x2 0 2 3 [Fl 1, Fl 6, NaN, Fl 1, Fl 1, Fl 1, Fl 0]
     = Inr [Fl 1, Fl 6, Fl (13 / 4), Fl 1, Fl 1, Fl 1, Fl 0]
   \<and> np_linspace 0 2 3 = Inr [0, 1, 2]
   \<and> sim_C_f_vars overshoot_collab guesser_2x2 2 [Fl 1, Fl 6, NaN, Fl 1, Fl 1, Fl 1, Fl 0]
        [0, 1, 2] = Inr [1, 5, 9]
   \<and> (\<exists>m c. m = 4 \<and> c = 1
        \<and> (\<forall>m' c'. sq_residuals [0, 1, 2] [1, 5, 9] m c \<le> sq_residuals [0, 1, 2] [1, 5, 9] m' c')
        \<and> [Fl 1, Fl 6, Fl (13 / 4), Fl 1, Fl 1, Fl 1, Fl 0] ! 2 = Fl (max 0 ((14 - c) / m)))"
proof -
  from guess_kn_least_squares [OF guess_kn_2x2]
  obtain kns kn_index C_f_vars C_f_var_true m c where
    1: "np_linspace 0 2 3 = Inr kns"
    and 2: "index_of (params (model guesser_2x2)) ''kn'' = Inr kn_index"
    and 3: "sim_C_f_vars overshoot_collab guesser_2x2 kn_index
        [Fl 1, Fl 6, NaN, Fl 1, Fl 1, Fl 1, Fl 0] kns = Inr C_f_vars"
    and 4: "np_var (py_last (no_cultures (plate guesser_2x2)) (c_meas (plate guesser_2x2)))
        = Inr C_f_var_true"
    and ols: "\<forall>m' c'. sq_residuals kns C_f_vars m c \<le> sq_residuals kns C_f_vars m' c'"
    and entry: "[Fl 1, Fl 6, Fl (13 / 4), Fl 1, Fl 1, Fl 1, Fl 0] ! kn_index
        = Fl (max 0 ((C_f_var_true - c) / m))"
    and law: "\<forall>m0 c0. C_f_vars = map (\<lambda>kn. m0 * kn + c0) kns \<longrightarrow>
            C_f_vars = map (\<lambda>kn. m * kn + c) kns
          \<and> (2 \<le> (3 :: int) \<and> (0 :: real) \<noteq> 2 \<longrightarrow> m = m0 \<and> c = c0)"
    by (elim exE conjE)
  from 1 sweep_2x2(1) have kns: "kns = [0, 1, 2]" by simp
  from 2 sweep_2x2(2) have kn_index: "kn_index = 2" by simp
  from 3 sweep_2x2(3) have C_f_vars: "C_f_vars = [1, 5, 9]" by (simp add: kns kn_index)
  from 4 sweep_2x2(4) have C_f_var_true: "C_f_var_true = 14" by simp
  have lin: "C_f_vars = map (\<lambda>kn. 4 * kn + 1) kns" by (simp add: kns C_f_vars)
  from law [THEN spec, of 4, THEN spec, of 1, THEN mp, OF lin, THEN conjunct2]
  have mc: "m = 4 \<and> c = 1" by simp
  have ols': "\<forall>m' c'. sq_residuals [0, 1, 2] [1, 5, 9] 4 1
        \<le> sq_residuals [0, 1, 2] [1, 5, 9] m' c'"
    using ols mc unfolding kns C_f_vars by simp
  have entry': "[Fl 1, Fl 6, Fl (13 / 4), Fl 1, Fl 1, Fl 1, Fl 0] ! 2
        = Fl (max 0 ((14 - 1) / 4))"
    using entry mc unfolding kn_index C_f_var_true by simp
  have "\<exists>m c. m = 4 \<and> c = 1
        \<and> (\<forall>m' c'. sq_residuals [0, 1, 2] [1, 5, 9] m c \<le> sq_residuals [0, 1, 2] [1, 5, 9] m' c')
        \<and> [Fl 1, Fl 6, Fl (13 / 4), Fl 1, Fl 1, Fl 1, Fl 0] ! 2 = Fl (max 0 ((14 - c) / m))"
    using ols' entry' by blast
  with guess_kn_2x2 sweep_2x2(1) sweep_2x2(3) show ?thesis by (intro conjI)
qed

text \<open>
  What \<open>guess_kn\<close> does at the other indices: the vector that it returns has the length
  of its input and, at every index other than that of \<open>kn\<close>, the entry of the input
  clipped below at zero, so that \<open>nan\<close> and non-negative entries are unchanged.
\<close>

lemma guess_kn_frame:
  assumes "guess_kn col g start stop num ps = Inr v"
  shows "length v = length ps
     \<and> (\<forall>i < length ps. index_of (params (model g)) ''kn'' \<noteq> Inr i \<longrightarrow>
           v ! i = clip_min 0 (ps ! i)
         \<and> (ps ! i = NaN \<or> (\<exists>a. ps ! i = Fl a \<and> 0 \<le> a) \<longrightarrow> v ! i = ps ! i))"
proof -
  from guess_kn_result [OF assms] obtain kn_index kn_guess where
    idx: "index_of (params (model g)) ''kn'' = Inr kn_index"
    and v: "v = map (clip_min 0) (ps[kn_index := Fl kn_guess])"
    by blast
  have len: "length v = length ps" by (simp add: v)
  have "v ! i = clip_min 0 (ps ! i)
      \<and> (ps ! i = NaN \<or> (\<exists>a. ps ! i = Fl a \<and> 0 \<le> a) \<longrightarrow> v ! i = ps ! i)"
    if "i < length ps" "index_of (params (model g)) ''kn'' \<noteq> Inr i" for i
  proof -
    from that idx have "i \<noteq> kn_index" by auto
    with that(1) have "v ! i = clip_min 0 (ps ! i)" by (simp add: v)
    then show ?thesis by (cases "ps ! i") auto
  qed
  with len show ?thesis by blast
qed

text \<open>
  Claim C6 says that \<open>guess_kn\<close> changes only the entry at the index of \<open>kn\<close>, as its
  documentation does (``returns this array with the guess of \<open>kn\<close> inserted''). The
  code clips the whole array that it returns, not the guess of \<open>kn\<close> alone: on the
  plate of two rows and two columns, the vector \<open>[-1, 6, nan, 1, 1, 1, 0]\<close> comes back
  with the entry 0 at index 0, which is not the index 2 of \<open>kn\<close>.
\<close>

theorem guess_kn_clips_other_entries:
  "index_of (params (model guesser_2x2)) ''kn'' = Inr 2
   \<and> guess_kn overshoot_collab guesser_2x2 0 2 3 [Fl (- 1), Fl 6, NaN, Fl 1, Fl 1, Fl 1, Fl 0]
     = Inr [Fl 0, Fl 6, Fl (13 / 4), Fl 1, Fl 1, Fl 1, Fl 0]
   \<and> [Fl (- 1), Fl 6, NaN, Fl 1, Fl 1, Fl 1, Fl 0] ! 0 = Fl (- 1)
   \<and> [Fl 0, Fl 6, Fl (13 / 4), Fl 1, Fl 1, Fl 1, Fl (0 :: real)] ! 0 = Fl 0"
  by code_simp

subsection \<open>Which cultures a stage fits\<close>

lemma fit_log_eq_cultures_all:
  assumes "i < length cs" and "i < length guesses"
  shows "log_est (fit_log_eq_cultures col bounds guesses cs ! i)
         = Some (fit_model col (cs ! i) IndeModel (guesses ! i) bounds)"
  using assms by (simp add: fit_log_eq_cultures_def nth_append)

text \<open>
  The loop of the imaginary-neighbour stage leaves an empty culture as it is and stores
  a fit result in every other culture.
\<close>

lemma fit_imag_neigh_cultures_skips_empties:
  assumes "fit_imag_neigh_cultures col p N_bc m ps bs i k cs = Inr cs'"
  shows "length cs' = length cs
     \<and> (\<forall>j < length cs. if i + j \<in> set (empties p) then cs' ! j = cs ! j
                          else im_neigh_est (cs' ! j) \<noteq> None)"
  using assms
proof (induction cs arbitrary: i k cs')
  case Nil
  then show ?case by simp
next
  case (Cons c cs)
  define k' where "k' = (if \<not> N_bc then Some 0
             else if i \<in> set (internals p) then Some 0
             else if i \<in> set (edges p) then Some 1
             else k)"
  from Cons.prems obtain c' rest where cs': "cs' = c' # rest"
    and rest: "fit_imag_neigh_cultures col p N_bc m ps bs (Suc i) k' cs = Inr rest"
    and c': "if i \<in> set (empties p) then c' = c else im_neigh_est c' \<noteq> None"
    by (auto simp: Let_def seq_Inr_iff k'_def split: if_splits option.splits)
  from Cons.IH [OF rest] have IH: "length rest = length cs"
    "\<forall>j < length cs. if Suc i + j \<in> set (empties p) then rest ! j = cs ! j
                          else im_neigh_est (rest ! j) \<noteq> None"
    by simp_all
  show ?case
  proof (intro conjI allI impI)
    show "length cs' = length (c # cs)" using IH(1) by (simp add: cs')
  next
    fix j assume "j < length (c # cs)"
    then show "if i + j \<in> set (empties p) then cs' ! j = (c # cs) ! j
               else im_neigh_est (cs' ! j) \<noteq> None"
      using c' IH(2) by (cases j) (simp_all add: cs')
  qed
qed

text \<open>
  Claim C5 says that each stage fits exactly the growing cultures. The
  imaginary-neighbour stage does: it stores no result for the empty culture 3 of the
  plate of two rows and two columns. The logistic-equivalent stage fits every culture
  that has a final measurement: it stores a fit result for the empty culture as well.
\<close>

theorem log_eq_fits_empty_culture:
  "empties (plate guesser_2x2) = [3]
   \<and> map_sum id (\<lambda>r. map log_est (snd r)) (quick_fit_log_eq overshoot_collab guesser_2x2 1)
     = Inr [Some (OptimizeResult [1, 6, 4] True), Some (OptimizeResult [1, 8, 4] True),
            Some (OptimizeResult [1, 10, 4] True), Some (OptimizeResult [1, 0, 4] True)]
   \<and> map_sum id (\<lambda>r. map im_neigh_est (snd r))
        (quick_fit_imag_neighs overshoot_collab guesser_2x2 [1 / 2, 1 / 2, 1 / 10, 3 / 2, 1]
           None None)
     = Inr [Some (OptimizeResult [1, 6, 1 / 2, 1 / 2, 1 / 10, 3 / 2, 4] True),
            Some (OptimizeResult [1, 6, 1 / 2, 1 / 2, 1 / 10, 3 / 2, 4] True),
            Some (OptimizeResult [1, 6, 1 / 2, 1 / 2, 1 / 10, 3 / 2, 4] True),
            None]"
  by code_simp

subsection \<open>The top half of the estimates\<close>

lemma py_insert_distinct:
  assumes "fst p \<notin> fst ` set qs"
  shows "py_insert p qs = Inr (insort_key fst p qs)"
  using assms
proof (induction qs)
  case Nil
  then show ?case by simp
next
  case (Cons q qs)
  then have "fst p \<noteq> fst q" and "fst p \<notin> fst ` set qs" by auto
  with Cons.IH show ?case by (auto simp: ests_lt_def)
qed

lemma py_sorted_from_distinct:
  assumes "distinct (map fst (acc @ ps))"
  shows "py_sorted_from acc ps = Inr (fold (insort_key fst) ps acc)"
  using assms
proof (induction ps arbitrary: acc)
  case Nil
  then show ?case by simp
next
  case (Cons p ps)
  then have new: "fst p \<notin> fst ` set acc" by auto
  have "distinct (map fst (insort_key fst p acc @ ps))"
    using Cons.prems by (auto simp: distinct_insort_key set_insort_key)
  from Cons.IH [OF this] new show ?case by (simp add: py_insert_distinct)
qed

lemma fold_insort_key:
  "sorted (map f acc) \<Longrightarrow> sorted (map f (fold (insort_key f) ps acc))"
  "set (fold (insort_key f) ps acc) = set ps \<union> set acc"
  "length (fold (insort_key f) ps acc) = length ps + length acc"
  "distinct (map f (acc @ ps)) \<Longrightarrow> distinct (map f (fold (insort_key f) ps acc))"
proof (induction ps arbitrary: acc)
  case Nil
  {
    case 1 then show ?case by simp
  next
    case 2 show ?case by simp
  next
    case 3 show ?case by simp
  next
    case 4 then show ?case by simp
  }
next
  case (Cons p ps)
  {
    case 1 then show ?case by (simp add: Cons.IH(1) sorted_insort_key)
  next
    case 2 show ?case by (simp add: Cons.IH(2) set_insort_key)
  next
    case 3 show ?case by (simp add: Cons.IH(3))
  next
    case 4
    then have "distinct (map f (insort_key f p acc @ ps))"
      by (auto simp: distinct_insort_key set_insort_key)
    then show ?case by (simp add: Cons.IH(4))
  }
qed

text \<open>
  Called as its documentation asks, with one estimate per culture, and on final amounts
  that are all different, \<open>_get_top_half_C_f_ests\<close> returns the estimates of the
  cultures with the highest final amounts, one more than half of them when their number
  is odd.
\<close>

lemma get_top_half_C_f_ests_all_cultures:
  assumes C_fs: "C_fs = py_last (no_cultures (plate g)) (c_meas (plate g))"
    and len: "length C_fs = no_cultures (plate g)" "length all_ests = no_cultures (plate g)"
    and dist: "distinct C_fs"
  shows "\<exists>srt. set srt = set (zip C_fs all_ests) \<and> length srt = no_cultures (plate g)
     \<and> sorted (map fst srt)
     \<and> get_top_half_C_f_ests g all_ests = Inr (map snd (drop (no_cultures (plate g) div 2) srt))
     \<and> length (drop (no_cultures (plate g) div 2) srt) = (no_cultures (plate g) + 1) div 2
     \<and> (\<forall>p \<in> set (take (no_cultures (plate g) div 2) srt).
          \<forall>q \<in> set (drop (no_cultures (plate g) div 2) srt). fst p < fst q)"
proof -
  define n where "n = no_cultures (plate g)"
  define srt where "srt = fold (insort_key fst) (zip C_fs all_ests) []"
  have keys: "map fst (zip C_fs all_ests) = C_fs" using len by simp
  have "py_sorted (zip C_fs all_ests) = Inr srt"
    unfolding py_sorted_def srt_def using dist
    by (intro py_sorted_from_distinct) (simp add: keys)
  then have res: "get_top_half_C_f_ests g all_ests = Inr (map snd (drop (n div 2) srt))"
    by (simp add: get_top_half_C_f_ests_def C_fs [symmetric] n_def drop_map)
  note F = fold_insort_key [where f = fst and acc = "[]" and ps = "zip C_fs all_ests"]
  have ms: "set srt = set (zip C_fs all_ests)"
    and sorted: "sorted (map fst srt)"
    and lsrt: "length srt = n"
    and dsrt: "distinct (map fst srt)"
    unfolding srt_def using F len dist keys by (simp_all add: n_def)
  have size: "length (drop (n div 2) srt) = (n + 1) div 2"
    using lsrt by simp
  have lower: "fst p < fst q"
    if p: "p \<in> set (take (n div 2) srt)" and q: "q \<in> set (drop (n div 2) srt)" for p q
  proof -
    from p obtain i where i: "i < n div 2" "i < length srt" "p = srt ! i"
      by (auto simp: in_set_conv_nth)
    from q obtain j where "j < length srt - n div 2" "q = srt ! (n div 2 + j)"
      by (auto simp: in_set_conv_nth)
    then have j: "n div 2 + j < length srt" "q = srt ! (n div 2 + j)"
      by simp_all
    have ij: "i < n div 2 + j" using i(1) by simp
    with sorted j(1) have "map fst srt ! i \<le> map fst srt ! (n div 2 + j)"
      by (intro sorted_nth_mono) simp_all
    moreover have "map fst srt ! i \<noteq> map fst srt ! (n div 2 + j)"
    proof -
      have "i < length (map fst srt)" "n div 2 + j < length (map fst srt)"
        using i(2) j(1) by simp_all
      with dsrt ij show ?thesis by (metis nth_eq_iff_index_eq less_irrefl)
    qed
    ultimately show ?thesis using i j by simp
  qed
  from ms lsrt sorted res size lower show ?thesis unfolding n_def by blast
qed

text \<open>
  Claim C7 says that the policy \<open>top_half\<close> takes the median over the estimates of the
  half of the cultures with the highest final amounts, the larger half when their
  number is odd. On the row of three cultures whose first one is empty, the estimates
  passed to \<open>_get_top_half_C_f_ests\<close> are those of the two growing cultures, paired
  with the final amounts of the first two cultures: the only estimate kept is 0.3, of
  the culture with the final amount 5, and the estimate 0.1 of the culture with the
  highest final amount 9 is dropped.
\<close>

theorem top_half_misaligned:
  "collect_ests ''log_est'' (growers (plate guesser_gap)) 0 (cultures (plate guesser_gap))
     = Inr [[1 / 10, 9, 1], [3 / 10, 5, 1]]
   \<and> get_top_half_C_f_ests guesser_gap [[1 / 10, 9, 1], [3 / 10, 5, 1]]
     = Inr [[3 / 10, 5, 1]]
   \<and> process_quick_ests overshoot_collab guesser_gap IndeModel ''log_est'' 1 False
        ''top_half'' None
     = Inr [Fl (3 / 10), Fl (14 / 3), NaN, Fl 0, Fl 1, Fl 1]"
  by code_simp

end
